theory Spec2Isabelle
  imports Main "HOL-Library.Sublist"
begin

unbundle bit_operations_syntax

section \<open>The driver downloader\<close>

text \<open>
  The module \<^verbatim>\<open>download_drivers.py\<close> is a sequence of calls into the Python
  standard library: two GETs, an archive extraction, a permission change and a file
  removal, chosen by the host's operating system. The model keeps the module's functions as they are written and
  makes explicit what they read from the host and what they change:
  \<^item> what the host answers (the platform strings, the bodies the network serves, how
    bytes decode, what an archive expands to) is a record \<open>host\<close>, read only;
  \<^item> what a run changes is a record \<open>world\<close>: the files of the module's directory
    and the list of library calls made so far, in order;
  \<^item> every exception is a value of \<open>error\<close>; a function that can raise returns
    \<open>error + 'a\<close> together with the world as it is when it returns or raises.
\<close>

subsection \<open>Errors, files, calls\<close>

type_synonym bytes = string

datatype error =
    NotImplementedError string
  | TransportError string
  | UnicodeDecodeError
  | ExtractError string
  | FileNotFoundError string
  | IndexError
  | ValueError

record fileobj =
  content :: bytes
  st_mode :: int

text \<open>
  The calls the module makes on the network, on an archive, or to change a file, as it
  makes them: \<open>urlopen(url)\<close>, \<open>urlretrieve(url, path)\<close>, \<open>zipfile.ZipFile(file, 'r')\<close>,
  \<open>extractall(path)\<close> on the opened zip file, \<open>tarfile.open(file)\<close>, \<open>extractall(path)\<close>
  on the opened tar file, \<open>os.chmod(path, mode)\<close> and \<open>os.remove(file)\<close>. Queries of the
  host (\<open>platform.system\<close>, \<open>platform.uname\<close>, \<open>os.stat\<close>) are not recorded.
\<close>

datatype call =
    Urlopen string
  | Urlretrieve string string
  | ZipFileOpen string
  | ZipExtractall string string
  | TarfileOpen string
  | TarExtractall string string
  | Chmod string int
  | Remove string

record host =
  system :: string
  machine :: string
  pwd :: string
  http_get :: "string \<Rightarrow> error + bytes"
  partial_body :: "string \<Rightarrow> bytes option"
  decode :: "bytes \<Rightarrow> error + string"
  zip_open :: "bytes \<Rightarrow> error option"
  zip_read :: "bytes \<Rightarrow> (string \<times> bytes) list \<times> error option"
  tar_open :: "bytes \<Rightarrow> error option"
  tar_read :: "bytes \<Rightarrow> (string \<times> fileobj) list \<times> error option"
  new_mode :: int

text \<open>
  \<open>system\<close> is \<open>platform.system()\<close>, \<open>machine\<close> is \<open>platform.uname()[4]\<close> and
  \<open>pwd\<close> is the module's global of that name, an absolute normalised directory other
  than the root. \<open>http_get\<close> is the body a GET of a URL yields, or the error the
  transport raises; when it raises, \<open>partial_body\<close> is what \<open>urlretrieve\<close> has written
  to its file by then, \<open>None\<close> if the file was not opened yet. \<open>decode\<close> is
  \<open>bytes.decode()\<close>. \<open>zip_open\<close> and \<open>tar_open\<close> give the error that opening a file
  of these bytes as an archive raises, if any. \<open>zip_read\<close> and \<open>tar_read\<close> give, for
  an archive that opens, the members \<open>extractall\<close> writes, in order, and the error it
  raises after writing them, if any: \<open>zipfile\<close> writes a member's bytes and ignores the
  mode stored in the archive, \<open>tarfile\<close> also sets the member's mode. \<open>new_mode\<close> is
  the mode a newly created file gets.
\<close>

record world =
  files :: "string \<rightharpoonup> fileobj"
  calls :: "call list"

definition record_call :: "call \<Rightarrow> world \<Rightarrow> world" where
  "record_call c w = w\<lparr>calls := calls w @ [c]\<rparr>"

text \<open>Writing a file opened with mode \<open>'wb'\<close>: an existing file keeps its mode.\<close>

definition write_bytes :: "host \<Rightarrow> string \<Rightarrow> bytes \<Rightarrow> world \<Rightarrow> world" where
  "write_bytes h p b w =
     w\<lparr>files := (files w)(p \<mapsto>
        \<lparr>content = b,
         st_mode = (case files w p of None \<Rightarrow> new_mode h | Some f \<Rightarrow> st_mode f)\<rparr>)\<rparr>"

definition put_file :: "string \<Rightarrow> fileobj \<Rightarrow> world \<Rightarrow> world" where
  "put_file p f w = w\<lparr>files := (files w)(p \<mapsto> f)\<rparr>"

text \<open>Sequencing: an exception ends the flow with the world as it is then.\<close>

definition and_then ::
  "(error + 'a) \<times> world \<Rightarrow> ('a \<Rightarrow> world \<Rightarrow> (error + 'b) \<times> world) \<Rightarrow> (error + 'b) \<times> world"
where
  "and_then r k = (case r of (Inl e, w) \<Rightarrow> (Inl e, w) | (Inr x, w) \<Rightarrow> k x w)"

subsection \<open>Strings\<close>

text \<open>Python's \<open>sub in s\<close> on strings.\<close>

fun contains :: "string \<Rightarrow> string \<Rightarrow> bool" where
  "contains sub [] = (sub = [])"
| "contains sub (c # s) = (prefix sub (c # s) \<or> contains sub s)"

text \<open>
  \<open>template.format(args)\<close> for templates whose only replacement field is \<open>{}\<close>, as
  all templates of this module are. A field with no argument left raises IndexError;
  arguments left over are ignored. Any other brace is reported as ValueError: doubled
  braces and named or numbered fields do not occur here and are not modelled.
\<close>

fun str_format :: "string \<Rightarrow> string list \<Rightarrow> error + string" where
  "str_format [] args = Inr []"
| "str_format [c] args = (if c = CHR ''{'' \<or> c = CHR ''}'' then Inl ValueError else Inr [c])"
| "str_format (c # d # t) args =
     (if c = CHR ''{'' \<and> d = CHR ''}'' then
        (case args of
           [] \<Rightarrow> Inl IndexError
         | a # rest \<Rightarrow> map_sum id ((@) a) (str_format t rest))
      else if c = CHR ''{'' \<or> c = CHR ''}'' then Inl ValueError
      else map_sum id ((#) c) (str_format (d # t) args))"

text \<open>\<open>os.path.join\<close> of a directory without a trailing separator and a relative name.\<close>

definition join :: "string \<Rightarrow> string \<Rightarrow> string" where
  "join a b = a @ ''/'' @ b"

subsection \<open>Module globals\<close>

definition cdriver_latest_release_url :: string where
  "cdriver_latest_release_url = ''https://chromedriver.storage.googleapis.com/LATEST_RELEASE''"

definition cdriver_download_url :: string where
  "cdriver_download_url = ''https://chromedriver.storage.googleapis.com/{}/chromedriver_{}.zip''"

definition gdriver_download_url :: string where
  "gdriver_download_url =
     ''https://github.com/mozilla/geckodriver/releases/download/v{}/geckodriver-v{}-{}''"

definition S_IXUSR :: int where
  "S_IXUSR = 64"

subsection \<open>class Utils\<close>

definition download_file :: "host \<Rightarrow> string \<Rightarrow> string \<Rightarrow> world \<Rightarrow> (error + unit) \<times> world" where
  "download_file h url file w =
     (let p = join (pwd h) file; w1 = record_call (Urlretrieve url p) w in
      case http_get h url of
        Inl e \<Rightarrow>
          (Inl e, case partial_body h url of None \<Rightarrow> w1 | Some b \<Rightarrow> write_bytes h p b w1)
      | Inr b \<Rightarrow> (Inr (), write_bytes h p b w1))"

text \<open>
  \<open>unzip\<close> and \<open>untar\<close> open the archive first; a missing file and bytes that are no
  archive raise there, before \<open>extractall\<close> is called.
\<close>

definition unzip :: "host \<Rightarrow> string \<Rightarrow> string \<Rightarrow> world \<Rightarrow> (error + unit) \<times> world" where
  "unzip h file path w =
     (let w0 = record_call (ZipFileOpen file) w in
      case files w0 file of
        None \<Rightarrow> (Inl (FileNotFoundError file), w0)
      | Some f \<Rightarrow>
          (case zip_open h (content f) of
             Some e \<Rightarrow> (Inl e, w0)
           | None \<Rightarrow>
               (let w1 = record_call (ZipExtractall file path) w0 in
                case zip_read h (content f) of (ms, err) \<Rightarrow>
                  let w2 = fold (\<lambda>(n, b). write_bytes h (join path n) b) ms w1 in
                  (case err of None \<Rightarrow> (Inr (), w2) | Some e \<Rightarrow> (Inl e, w2)))))"

definition untar :: "host \<Rightarrow> string \<Rightarrow> string \<Rightarrow> world \<Rightarrow> (error + unit) \<times> world" where
  "untar h file path w =
     (let w0 = record_call (TarfileOpen file) w in
      case files w0 file of
        None \<Rightarrow> (Inl (FileNotFoundError file), w0)
      | Some f \<Rightarrow>
          (case tar_open h (content f) of
             Some e \<Rightarrow> (Inl e, w0)
           | None \<Rightarrow>
               (let w1 = record_call (TarExtractall file path) w0 in
                case tar_read h (content f) of (ms, err) \<Rightarrow>
                  let w2 = fold (\<lambda>(n, m). put_file (join path n) m) ms w1 in
                  (case err of None \<Rightarrow> (Inr (), w2) | Some e \<Rightarrow> (Inl e, w2)))))"

definition cleanup :: "string \<Rightarrow> world \<Rightarrow> (error + unit) \<times> world" where
  "cleanup file w =
     (let w1 = record_call (Remove file) w in
      case files w1 file of
        None \<Rightarrow> (Inl (FileNotFoundError file), w1)
      | Some f \<Rightarrow> (Inr (), w1\<lparr>files := (files w1)(file := None)\<rparr>))"

text \<open>
  \<open>os.stat(path).st_mode\<close> and \<open>os.chmod(path, mode)\<close>; both raise
  FileNotFoundError on a missing file. The module only passes \<open>os.chmod\<close> the file's
  own \<open>st_mode\<close> with one permission bit added, so the file-type bits of the argument
  are the file's own and the model stores the argument as the new \<open>st_mode\<close>.
\<close>

definition os_stat :: "string \<Rightarrow> world \<Rightarrow> (error + int) \<times> world" where
  "os_stat path w =
     (case files w path of
        None \<Rightarrow> (Inl (FileNotFoundError path), w)
      | Some f \<Rightarrow> (Inr (st_mode f), w))"

definition os_chmod :: "string \<Rightarrow> int \<Rightarrow> world \<Rightarrow> (error + unit) \<times> world" where
  "os_chmod path mode w =
     (let w1 = record_call (Chmod path mode) w in
      case files w1 path of
        None \<Rightarrow> (Inl (FileNotFoundError path), w1)
      | Some f \<Rightarrow> (Inr (), w1\<lparr>files := (files w1)(path \<mapsto> f\<lparr>st_mode := mode\<rparr>)\<rparr>))"

subsection \<open>class ChromeDriver\<close>

record ChromeDriver =
  cd_version :: string
  cdriver_url :: string
  cdriver_path :: string
  cdriver_zip_path :: string

definition get_version :: "host \<Rightarrow> string \<Rightarrow> world \<Rightarrow> (error + string) \<times> world" where
  "get_version h version w =
     (case (if version = ''LATEST_RELEASE'' then Inr cdriver_latest_release_url
            else map_sum id ((@) cdriver_latest_release_url) (str_format ''_{}'' [version])) of
        Inl e \<Rightarrow> (Inl e, w)
      | Inr url \<Rightarrow>
          (let w1 = record_call (Urlopen url) w in
           case http_get h url of
             Inl e \<Rightarrow> (Inl e, w1)
           | Inr body \<Rightarrow> (decode h body, w1)))"

definition get_cdriver_download_url :: "host \<Rightarrow> string \<Rightarrow> error + string" where
  "get_cdriver_download_url h version =
     (if system h = ''Darwin'' then str_format cdriver_download_url [version, ''mac64'']
      else if system h = ''Linux'' then str_format cdriver_download_url [version, ''linux64'']
      else if system h = ''Windows'' then str_format cdriver_download_url [version, ''win32'']
      else Inl (NotImplementedError ''This OS is not implemented yet.''))"

text \<open>
  The constructor's parameter \<open>version='LATEST_RELEASE'\<close>: \<open>None\<close> is the call without
  an argument.
\<close>

definition version_or_default :: "string option \<Rightarrow> string" where
  "version_or_default arg = (case arg of None \<Rightarrow> ''LATEST_RELEASE'' | Some v \<Rightarrow> v)"

definition ChromeDriver_init ::
  "host \<Rightarrow> string option \<Rightarrow> world \<Rightarrow> (error + ChromeDriver) \<times> world" where
  "ChromeDriver_init h arg w =
     and_then (get_version h (version_or_default arg) w) (\<lambda>v w1.
       case get_cdriver_download_url h v of
         Inl e \<Rightarrow> (Inl e, w1)
       | Inr url \<Rightarrow>
           (Inr \<lparr>cd_version = v, cdriver_url = url,
                 cdriver_path = pwd h @ ''/chromedriver'',
                 cdriver_zip_path = (pwd h @ ''/chromedriver'') @ ''.zip''\<rparr>, w1))"

definition download_chromedriver :: "host \<Rightarrow> ChromeDriver \<Rightarrow> world \<Rightarrow> (error + unit) \<times> world" where
  "download_chromedriver h self w =
     and_then (download_file h (cdriver_url self) ''chromedriver.zip'' w) (\<lambda>_ w1.
     and_then (unzip h (cdriver_zip_path self) (pwd h) w1) (\<lambda>_ w2.
     and_then (if \<not> system h = ''Windows''
               then and_then (os_stat (cdriver_path self) w2) (\<lambda>m w3.
                      os_chmod (cdriver_path self) (m OR S_IXUSR) w3)
               else (Inr (), w2)) (\<lambda>_ w4.
     cleanup (cdriver_zip_path self) w4)))"

subsection \<open>class GeckoDriver\<close>

record GeckoDriver =
  gd_version :: string
  gdriver_url :: string
  gdriver_path :: string
  gdriver_tar_gz_path :: string
  gdriver_zip_path :: string

definition get_gdriver_download_url :: "host \<Rightarrow> string \<Rightarrow> error + string" where
  "get_gdriver_download_url h version =
     (if system h = ''Darwin'' then
        str_format gdriver_download_url [version, version, ''macos.tar.gz'']
      else if system h = ''Linux'' then
        (if contains ''64'' (machine h)
         then str_format gdriver_download_url [version, version, ''linux64.tar.gz'']
         else str_format gdriver_download_url [version, version, ''linux32.tar.gz''])
      else if system h = ''Windows'' then
        (if contains ''64'' (machine h)
         then str_format gdriver_download_url [version, version, ''win64.zip'']
         else str_format gdriver_download_url [version, version, ''win32.zip''])
      else Inl (NotImplementedError ''This OS is not implemented yet.''))"

definition GeckoDriver_init ::
  "host \<Rightarrow> string \<Rightarrow> world \<Rightarrow> (error + GeckoDriver) \<times> world" where
  "GeckoDriver_init h version w =
     (case get_gdriver_download_url h version of
        Inl e \<Rightarrow> (Inl e, w)
      | Inr url \<Rightarrow>
          (Inr \<lparr>gd_version = version, gdriver_url = url,
                gdriver_path = pwd h @ ''/geckodriver'',
                gdriver_tar_gz_path = (pwd h @ ''/geckodriver'') @ ''.tar.gz'',
                gdriver_zip_path = (pwd h @ ''/geckodriver'') @ ''.zip''\<rparr>, w))"

definition download_geckodriver :: "host \<Rightarrow> GeckoDriver \<Rightarrow> world \<Rightarrow> (error + unit) \<times> world" where
  "download_geckodriver h self w =
     (if system h = ''Windows'' then
        and_then (download_file h (gdriver_url self) ''geckodriver.zip'' w) (\<lambda>_ w1.
        and_then (unzip h (gdriver_zip_path self) (pwd h) w1) (\<lambda>_ w2.
        cleanup (gdriver_zip_path self) w2))
      else
        and_then (download_file h (gdriver_url self) ''geckodriver.tar.gz'' w) (\<lambda>_ w1.
        and_then (untar h (gdriver_tar_gz_path self) (pwd h) w1) (\<lambda>_ w2.
        cleanup (gdriver_tar_gz_path self) w2)))"

subsection \<open>Example hosts\<close>

text \<open>
  A host whose network serves two release numbers and one archive per driver, with a toy
  archive format: the bytes \<open>zip:name\<close> and \<open>tar:name\<close> open as archives and expand
  to one member of that name. It is used to evaluate the functions on concrete inputs.
\<close>

definition example_host :: "string \<Rightarrow> string \<Rightarrow> host" where
  "example_host sys mach =
     \<lparr>system = sys, machine = mach, pwd = ''/opt/drivers'',
      http_get = (\<lambda>url.
        if url = ''https://chromedriver.storage.googleapis.com/LATEST_RELEASE''
          then Inr ''79.0.3945.36''
        else if url = ''https://chromedriver.storage.googleapis.com/LATEST_RELEASE_78''
          then Inr ''78.0.3904.105''
        else if prefix ''https://chromedriver.storage.googleapis.com/7'' url
          then Inr ''zip:chromedriver''
        else if prefix ''https://github.com/mozilla/geckodriver/releases/download/v0.26.0/'' url
          then Inr (if suffix ''.zip'' url then ''zip:geckodriver.exe'' else ''tar:geckodriver'')
        else Inl (TransportError ''HTTP Error 404: Not Found'')),
      partial_body = (\<lambda>url. None),
      decode = Inr,
      zip_open = (\<lambda>b.
        if prefix ''zip:'' b then None else Some (ExtractError ''File is not a zip file'')),
      zip_read = (\<lambda>b. ([(drop 4 b, ''MZ'')], None)),
      tar_open = (\<lambda>b.
        if prefix ''tar:'' b then None else Some (ExtractError ''not a gzip file'')),
      tar_read = (\<lambda>b. ([(drop 4 b, \<lparr>content = ''ELF'', st_mode = 33261\<rparr>)], None)),
      new_mode = 33188\<rparr>"

definition empty_dir :: world where
  "empty_dir = \<lparr>files = Map.empty, calls = []\<rparr>"

text \<open>
  The objects the two constructors return on the Linux example host, and the Firefox
  driver object of the Windows one.
\<close>

definition linux_chromedriver :: ChromeDriver where
  "linux_chromedriver =
     \<lparr>cd_version = ''78.0.3904.105'',
      cdriver_url = ''https://chromedriver.storage.googleapis.com/78.0.3904.105/chromedriver_linux64.zip'',
      cdriver_path = ''/opt/drivers/chromedriver'',
      cdriver_zip_path = ''/opt/drivers/chromedriver.zip''\<rparr>"

definition linux_geckodriver :: GeckoDriver where
  "linux_geckodriver =
     \<lparr>gd_version = ''0.26.0'',
      gdriver_url = ''https://github.com/mozilla/geckodriver/releases/download/v0.26.0/geckodriver-v0.26.0-linux64.tar.gz'',
      gdriver_path = ''/opt/drivers/geckodriver'',
      gdriver_tar_gz_path = ''/opt/drivers/geckodriver.tar.gz'',
      gdriver_zip_path = ''/opt/drivers/geckodriver.zip''\<rparr>"

definition windows_geckodriver :: GeckoDriver where
  "windows_geckodriver =
     \<lparr>gd_version = ''0.26.0'',
      gdriver_url = ''https://github.com/mozilla/geckodriver/releases/download/v0.26.0/geckodriver-v0.26.0-win64.zip'',
      gdriver_path = ''/opt/drivers/geckodriver'',
      gdriver_tar_gz_path = ''/opt/drivers/geckodriver.tar.gz'',
      gdriver_zip_path = ''/opt/drivers/geckodriver.zip''\<rparr>"

text \<open>
  A host that serves the release numbers as the example host does, and whose archives all
  hold a single member, a README.
\<close>

definition readme_host :: "string \<Rightarrow> string \<Rightarrow> host" where
  "readme_host sys mach =
     (example_host sys mach)\<lparr>http_get := \<lambda>url.
        if prefix ''https://chromedriver.storage.googleapis.com/LATEST_RELEASE'' url
          then http_get (example_host sys mach) url
        else Inr (if suffix ''.zip'' url then ''zip:README'' else ''tar:README'')\<rparr>"

subsection \<open>Notation for the statements\<close>

text \<open>
  The archive the Firefox download step fetches and the extraction call it makes, as
  \<open>download_geckodriver\<close> chooses them.
\<close>

abbreviation (input) gecko_archive_name :: "host \<Rightarrow> string" where
  "gecko_archive_name h \<equiv>
     (if system h = ''Windows'' then ''geckodriver.zip'' else ''geckodriver.tar.gz'')"

abbreviation (input) gecko_open_call :: "host \<Rightarrow> string \<Rightarrow> call" where
  "gecko_open_call h a \<equiv> (if system h = ''Windows'' then ZipFileOpen a else TarfileOpen a)"

abbreviation (input) gecko_extract_call :: "host \<Rightarrow> string \<Rightarrow> call" where
  "gecko_extract_call h a \<equiv>
     (if system h = ''Windows'' then ZipExtractall a (pwd h) else TarExtractall a (pwd h))"

abbreviation (input) gecko_extract ::
  "host \<Rightarrow> string \<Rightarrow> world \<Rightarrow> (error + unit) \<times> world" where
  "gecko_extract h a w \<equiv>
     (if system h = ''Windows'' then unzip h a (pwd h) w else untar h a (pwd h) w)"

abbreviation (input) gecko_members :: "host \<Rightarrow> bytes \<Rightarrow> string list" where
  "gecko_members h b \<equiv>
     (if system h = ''Windows'' then map fst (fst (zip_read h b))
      else map fst (fst (tar_read h b)))"

abbreviation (input) gecko_release :: "string \<Rightarrow> string \<Rightarrow> string" where
  "gecko_release v t \<equiv>
     ''https://github.com/mozilla/geckodriver/releases/download/v'' @ v
       @ ''/geckodriver-v'' @ v @ ''-'' @ t"

section \<open>Basic facts\<close>

lemma contains_iff: "contains sub s \<longleftrightarrow> (\<exists>p q. s = p @ sub @ q)"
proof (induction s)
  case Nil
  then show ?case by auto
next
  case (Cons c s)
  show ?case
  proof
    assume "contains sub (c # s)"
    then consider "prefix sub (c # s)" | "contains sub s" by auto
    then show "\<exists>p q. c # s = p @ sub @ q"
    proof cases
      case 1
      then obtain q where "c # s = sub @ q" by (auto simp: prefix_def)
      then have "c # s = [] @ sub @ q" by simp
      then show ?thesis by blast
    next
      case 2
      with Cons.IH obtain p q where "s = p @ sub @ q" by blast
      then have "c # s = (c # p) @ sub @ q" by simp
      then show ?thesis by blast
    qed
  next
    assume "\<exists>p q. c # s = p @ sub @ q"
    then obtain p q where pq: "c # s = p @ sub @ q" by blast
    show "contains sub (c # s)"
    proof (cases p)
      case Nil
      with pq have "prefix sub (c # s)" by (simp add: prefix_def)
      then show ?thesis by simp
    next
      case (Cons a p')
      with pq have "s = p' @ sub @ q" by simp
      with Cons.IH have "contains sub s" by blast
      then show ?thesis by simp
    qed
  qed
qed

lemma contains_mid: "contains sub (p @ sub @ q)"
  by (auto simp: contains_iff)

lemma format_underscore: "str_format ''_{}'' [v] = Inr (''_'' @ v)"
  by simp

lemma format_cdriver:
  "str_format cdriver_download_url [v, t] =
     Inr (''https://chromedriver.storage.googleapis.com/'' @ v @ ''/chromedriver_'' @ t @ ''.zip'')"
  by (simp add: cdriver_download_url_def)

lemma format_gdriver:
  "str_format gdriver_download_url [v, v', t] =
     Inr (''https://github.com/mozilla/geckodriver/releases/download/v'' @ v
          @ ''/geckodriver-v'' @ v' @ ''-'' @ t)"
  by (simp add: gdriver_download_url_def)

lemma suffix_tar_gz: "suffix ''.tar.gz'' (p @ ''.tar.gz'')"
  unfolding suffix_def by blast

lemma suffix_zip: "suffix ''.zip'' (p @ ''.zip'')"
  unfolding suffix_def by blast

section \<open>URL builders\<close>

text \<open>
  Claim C1. On each of the three recognised systems the Chrome URL builder returns a URL,
  for every version string: the template with the version and the system's own suffix
  (\<open>mac64\<close> on Darwin, \<open>linux64\<close> on Linux, \<open>win32\<close> on Windows) substituted. The
  URL contains that suffix, the three suffixes differ, and the URL always names a ZIP
  archive.
\<close>

theorem get_cdriver_download_url_recognised:
  assumes "(system h, t) \<in> {(''Darwin'', ''mac64''), (''Linux'', ''linux64''), (''Windows'', ''win32'')}"
  shows "\<exists>url. get_cdriver_download_url h v = Inr url
           \<and> url = ''https://chromedriver.storage.googleapis.com/'' @ v
                     @ ''/chromedriver_'' @ t @ ''.zip''
           \<and> contains t url \<and> suffix ''.zip'' url
           \<and> distinct [''mac64'', ''linux64'', ''win32'']"
proof -
  let ?url = "''https://chromedriver.storage.googleapis.com/'' @ v
                @ ''/chromedriver_'' @ t @ ''.zip''"
  have url: "get_cdriver_download_url h v = Inr ?url"
    using assms unfolding get_cdriver_download_url_def
    by (auto simp: format_cdriver)
  have "contains t ((''https://chromedriver.storage.googleapis.com/'' @ v
                    @ ''/chromedriver_'') @ t @ ''.zip'')"
    by (rule contains_mid)
  then have c: "contains t ?url" by simp
  have "?url = (''https://chromedriver.storage.googleapis.com/'' @ v
                    @ ''/chromedriver_'' @ t) @ ''.zip''" by simp
  then have s: "suffix ''.zip'' ?url" unfolding suffix_def by blast
  have d: "distinct [''mac64'', ''linux64'', ''win32'']" by simp
  show ?thesis using url c s d by blast
qed

theorem get_cdriver_download_url_recognised_witness:
  "(system (example_host ''Linux'' ''x86_64''), ''linux64'')
      \<in> {(''Darwin'', ''mac64''), (''Linux'', ''linux64''), (''Windows'', ''win32'')}
   \<and> get_cdriver_download_url (example_host ''Linux'' ''x86_64'') ''78.0.3904.105''
       = Inr ''https://chromedriver.storage.googleapis.com/78.0.3904.105/chromedriver_linux64.zip''
   \<and> get_cdriver_download_url (example_host ''Darwin'' ''arm64'') ''78.0.3904.105''
       = Inr ''https://chromedriver.storage.googleapis.com/78.0.3904.105/chromedriver_mac64.zip''
   \<and> get_cdriver_download_url (example_host ''Windows'' ''AMD64'') ''78.0.3904.105''
       = Inr ''https://chromedriver.storage.googleapis.com/78.0.3904.105/chromedriver_win32.zip''"
  using get_cdriver_download_url_recognised
          [of "example_host ''Linux'' ''x86_64''" "''linux64''" "''78.0.3904.105''"]
        get_cdriver_download_url_recognised
          [of "example_host ''Darwin'' ''arm64''" "''mac64''" "''78.0.3904.105''"]
        get_cdriver_download_url_recognised
          [of "example_host ''Windows'' ''AMD64''" "''win32''" "''78.0.3904.105''"]
  by (simp add: example_host_def)

text \<open>
  Claim C5. On a system other than Darwin, Linux and Windows both URL builders raise
  NotImplementedError and return no URL.
\<close>

theorem unsupported_os_raises:
  assumes "system h \<notin> {''Darwin'', ''Linux'', ''Windows''}"
  shows "get_cdriver_download_url h v
           = Inl (NotImplementedError ''This OS is not implemented yet.'')
       \<and> get_gdriver_download_url h v
           = Inl (NotImplementedError ''This OS is not implemented yet.'')"
  using assms by (simp add: get_cdriver_download_url_def get_gdriver_download_url_def)

theorem unsupported_os_raises_witness:
  "system (example_host ''FreeBSD'' ''amd64'') \<notin> {''Darwin'', ''Linux'', ''Windows''}
   \<and> get_cdriver_download_url (example_host ''FreeBSD'' ''amd64'') ''78.0.3904.105''
        = Inl (NotImplementedError ''This OS is not implemented yet.'')
   \<and> get_gdriver_download_url (example_host ''FreeBSD'' ''amd64'') ''0.26.0''
        = Inl (NotImplementedError ''This OS is not implemented yet.'')"
  using unsupported_os_raises [of "example_host ''FreeBSD'' ''amd64''" "''78.0.3904.105''"]
        unsupported_os_raises [of "example_host ''FreeBSD'' ''amd64''" "''0.26.0''"]
  by (simp add: example_host_def)

text \<open>
  Claim C4. The Firefox URL builder puts the caller's version string twice into the
  template, unchanged, followed by the suffix of the host: \<open>macos.tar.gz\<close> on Darwin;
  \<open>linux64.tar.gz\<close> or \<open>linux32.tar.gz\<close> on Linux and \<open>win64.zip\<close> or
  \<open>win32.zip\<close> on Windows, the 64-bit one exactly when the machine string contains
  \<open>64\<close>, as \<open>x86_64\<close> does and \<open>i686\<close> does not. The URL names a ZIP archive on
  Windows and a gzip-tar archive otherwise. The constructor stores the version as given
  and makes no library call: the world is returned as it was.
\<close>

theorem get_gdriver_download_url_table:
  "(system h = ''Darwin'' \<longrightarrow>
      get_gdriver_download_url h v = Inr (gecko_release v ''macos.tar.gz''))
   \<and> (system h = ''Linux'' \<and> contains ''64'' (machine h) \<longrightarrow>
      get_gdriver_download_url h v = Inr (gecko_release v ''linux64.tar.gz''))
   \<and> (system h = ''Linux'' \<and> \<not> contains ''64'' (machine h) \<longrightarrow>
      get_gdriver_download_url h v = Inr (gecko_release v ''linux32.tar.gz''))
   \<and> (system h = ''Windows'' \<and> contains ''64'' (machine h) \<longrightarrow>
      get_gdriver_download_url h v = Inr (gecko_release v ''win64.zip''))
   \<and> (system h = ''Windows'' \<and> \<not> contains ''64'' (machine h) \<longrightarrow>
      get_gdriver_download_url h v = Inr (gecko_release v ''win32.zip''))
   \<and> (machine h = ''x86_64'' \<longrightarrow> contains ''64'' (machine h))
   \<and> (machine h = ''i686'' \<longrightarrow> \<not> contains ''64'' (machine h))
   \<and> (\<forall>url. get_gdriver_download_url h v = Inr url \<longrightarrow>
        (if system h = ''Windows'' then suffix ''.zip'' url else suffix ''.tar.gz'' url)
        \<and> GeckoDriver_init h v w =
            (Inr \<lparr>gd_version = v, gdriver_url = url,
                  gdriver_path = pwd h @ ''/geckodriver'',
                  gdriver_tar_gz_path = pwd h @ ''/geckodriver.tar.gz'',
                  gdriver_zip_path = pwd h @ ''/geckodriver.zip''\<rparr>, w))"
proof -
  have rows: "(system h = ''Darwin'' \<longrightarrow>
      get_gdriver_download_url h v = Inr (gecko_release v ''macos.tar.gz''))
   \<and> (system h = ''Linux'' \<and> contains ''64'' (machine h) \<longrightarrow>
      get_gdriver_download_url h v = Inr (gecko_release v ''linux64.tar.gz''))
   \<and> (system h = ''Linux'' \<and> \<not> contains ''64'' (machine h) \<longrightarrow>
      get_gdriver_download_url h v = Inr (gecko_release v ''linux32.tar.gz''))
   \<and> (system h = ''Windows'' \<and> contains ''64'' (machine h) \<longrightarrow>
      get_gdriver_download_url h v = Inr (gecko_release v ''win64.zip''))
   \<and> (system h = ''Windows'' \<and> \<not> contains ''64'' (machine h) \<longrightarrow>
      get_gdriver_download_url h v = Inr (gecko_release v ''win32.zip''))"
    by (simp add: get_gdriver_download_url_def format_gdriver del: contains.simps)
  have arch: "(machine h = ''x86_64'' \<longrightarrow> contains ''64'' (machine h))
   \<and> (machine h = ''i686'' \<longrightarrow> \<not> contains ''64'' (machine h))"
    by simp
  have kind: "(if system h = ''Windows'' then suffix ''.zip'' url else suffix ''.tar.gz'' url)"
    if "get_gdriver_download_url h v = Inr url" for url
  proof -
    have z: "suffix ''.zip'' (gecko_release v ''win64.zip'')"
            "suffix ''.zip'' (gecko_release v ''win32.zip'')"
      using suffix_zip [of "gecko_release v ''win64''"] suffix_zip [of "gecko_release v ''win32''"]
      by simp_all
    have t: "suffix ''.tar.gz'' (gecko_release v ''macos.tar.gz'')"
            "suffix ''.tar.gz'' (gecko_release v ''linux64.tar.gz'')"
            "suffix ''.tar.gz'' (gecko_release v ''linux32.tar.gz'')"
      using suffix_tar_gz [of "gecko_release v ''macos''"] 
            suffix_tar_gz [of "gecko_release v ''linux64''"]
            suffix_tar_gz [of "gecko_release v ''linux32''"]
      by simp_all
    show ?thesis
      using that z t
      by (auto simp: get_gdriver_download_url_def format_gdriver 
               simp del: contains.simps split: if_splits)
  qed
  have init: "GeckoDriver_init h v w =
            (Inr \<lparr>gd_version = v, gdriver_url = url,
                  gdriver_path = pwd h @ ''/geckodriver'',
                  gdriver_tar_gz_path = pwd h @ ''/geckodriver.tar.gz'',
                  gdriver_zip_path = pwd h @ ''/geckodriver.zip''\<rparr>, w)"
    if "get_gdriver_download_url h v = Inr url" for url
    using that by (simp add: GeckoDriver_init_def)
  show ?thesis using rows arch kind init by blast
qed

theorem get_gdriver_download_url_table_witness:
  "get_gdriver_download_url (example_host ''Darwin'' ''arm64'') ''0.26.0''
     = Inr ''https://github.com/mozilla/geckodriver/releases/download/v0.26.0/geckodriver-v0.26.0-macos.tar.gz''
   \<and> get_gdriver_download_url (example_host ''Linux'' ''x86_64'') ''0.26.0''
     = Inr ''https://github.com/mozilla/geckodriver/releases/download/v0.26.0/geckodriver-v0.26.0-linux64.tar.gz''
   \<and> get_gdriver_download_url (example_host ''Linux'' ''i686'') ''0.26.0''
     = Inr ''https://github.com/mozilla/geckodriver/releases/download/v0.26.0/geckodriver-v0.26.0-linux32.tar.gz''
   \<and> get_gdriver_download_url (example_host ''Windows'' ''AMD64'') ''0.26.0''
     = Inr ''https://github.com/mozilla/geckodriver/releases/download/v0.26.0/geckodriver-v0.26.0-win64.zip''
   \<and> get_gdriver_download_url (example_host ''Windows'' ''x86'') ''0.26.0''
     = Inr ''https://github.com/mozilla/geckodriver/releases/download/v0.26.0/geckodriver-v0.26.0-win32.zip''
   \<and> gd_version (projr (fst (GeckoDriver_init (example_host ''Linux'' ''x86_64'') ''0.26.0'' empty_dir)))
     = ''0.26.0''
   \<and> snd (GeckoDriver_init (example_host ''Linux'' ''x86_64'') ''0.26.0'' empty_dir) = empty_dir"
proof -
  have darwin: "system (example_host ''Darwin'' ''arm64'') = ''Darwin''"
    and linux64: "system (example_host ''Linux'' ''x86_64'') = ''Linux''
                  \<and> contains ''64'' (machine (example_host ''Linux'' ''x86_64''))"
    and linux32: "system (example_host ''Linux'' ''i686'') = ''Linux''
                  \<and> \<not> contains ''64'' (machine (example_host ''Linux'' ''i686''))"
    and win64: "system (example_host ''Windows'' ''AMD64'') = ''Windows''
                  \<and> contains ''64'' (machine (example_host ''Windows'' ''AMD64''))"
    and win32: "system (example_host ''Windows'' ''x86'') = ''Windows''
                  \<and> \<not> contains ''64'' (machine (example_host ''Windows'' ''x86''))"
    by (simp_all add: example_host_def)
  note t = get_gdriver_download_url_table
  show ?thesis
    using darwin linux64 linux32 win64 win32
      t [of "example_host ''Darwin'' ''arm64''" "''0.26.0''" empty_dir]
      t [of "example_host ''Linux'' ''x86_64''" "''0.26.0''" empty_dir]
      t [of "example_host ''Linux'' ''i686''" "''0.26.0''" empty_dir]
      t [of "example_host ''Windows'' ''AMD64''" "''0.26.0''" empty_dir]
      t [of "example_host ''Windows'' ''x86''" "''0.26.0''" empty_dir]
    by (simp del: contains.simps)
qed

section \<open>The version resolver\<close>

lemma get_version_eq:
  "get_version h version w =
     (let url = (if version = ''LATEST_RELEASE'' then cdriver_latest_release_url
                 else cdriver_latest_release_url @ ''_'' @ version)
      in ((case http_get h url of Inl e \<Rightarrow> Inl e | Inr body \<Rightarrow> decode h body),
          w\<lparr>calls := calls w @ [Urlopen url]\<rparr>))"
  by (simp add: get_version_def record_call_def Let_def split: sum.splits)

text \<open>
  Claim C2, as stated, takes the token \<open>latest\<close> for the sentinel. On the example host
  that token is not recognised: the resolver requests the endpoint with \<open>_latest\<close>
  appended, which the host does not serve, and does not request the bare endpoint.
\<close>

theorem get_version_latest_literal_counterexample:
  "get_version (example_host ''Linux'' ''x86_64'') ''latest'' empty_dir
     = (Inl (TransportError ''HTTP Error 404: Not Found''),
        empty_dir\<lparr>calls := [Urlopen ''https://chromedriver.storage.googleapis.com/LATEST_RELEASE_latest'']\<rparr>)
   \<and> calls (snd (get_version (example_host ''Linux'' ''x86_64'') ''latest'' empty_dir))
     \<noteq> calls empty_dir @ [Urlopen ''https://chromedriver.storage.googleapis.com/LATEST_RELEASE'']"
  by (simp add: get_version_eq cdriver_latest_release_url_def example_host_def empty_dir_def Let_def)

text \<open>
  Claim C2, amended: the sentinel is the string \<open>LATEST_RELEASE\<close>. For that token the
  resolver makes exactly one call, a GET of the latest-release endpoint with nothing
  appended, and returns the body as \<open>decode\<close> gives it, with no other change; an error
  of the transport is returned as it is.
\<close>

theorem get_version_latest_release:
  "snd (get_version h ''LATEST_RELEASE'' w)
     = w\<lparr>calls := calls w @ [Urlopen ''https://chromedriver.storage.googleapis.com/LATEST_RELEASE'']\<rparr>
   \<and> (\<forall>body. http_get h ''https://chromedriver.storage.googleapis.com/LATEST_RELEASE'' = Inr body
         \<longrightarrow> fst (get_version h ''LATEST_RELEASE'' w) = decode h body)
   \<and> (\<forall>e. http_get h ''https://chromedriver.storage.googleapis.com/LATEST_RELEASE'' = Inl e
         \<longrightarrow> fst (get_version h ''LATEST_RELEASE'' w) = Inl e)"
  by (simp add: get_version_eq cdriver_latest_release_url_def Let_def)

theorem get_version_latest_release_witness:
  "get_version (example_host ''Linux'' ''x86_64'') ''LATEST_RELEASE'' empty_dir
     = (Inr ''79.0.3945.36'',
        empty_dir\<lparr>calls := [Urlopen ''https://chromedriver.storage.googleapis.com/LATEST_RELEASE'']\<rparr>)
   \<and> fst (get_version ((example_host ''Linux'' ''x86_64'')\<lparr>http_get := \<lambda>url. Inr '' 79.0.3945.36  ''\<rparr>)
             ''LATEST_RELEASE'' empty_dir)
     = Inr '' 79.0.3945.36  ''"
proof -
  let ?h = "example_host ''Linux'' ''x86_64''"
  let ?h' = "?h\<lparr>http_get := \<lambda>url. Inr '' 79.0.3945.36  ''\<rparr>"
  have a: "http_get ?h ''https://chromedriver.storage.googleapis.com/LATEST_RELEASE''
             = Inr ''79.0.3945.36''"
    and b: "decode ?h ''79.0.3945.36'' = Inr ''79.0.3945.36''"
    and c: "http_get ?h' ''https://chromedriver.storage.googleapis.com/LATEST_RELEASE''
             = Inr '' 79.0.3945.36  ''"
    and d: "decode ?h' '' 79.0.3945.36  '' = Inr '' 79.0.3945.36  ''"
    by (simp_all add: example_host_def)
  show ?thesis
    using a b c d get_version_latest_release [of ?h empty_dir]
          get_version_latest_release [of ?h' empty_dir]
    by (simp add: prod_eq_iff empty_dir_def)
qed

text \<open>
  Claim C3. For every token other than the sentinel \<open>LATEST_RELEASE\<close> the resolver makes
  exactly one call, a GET of the latest-release endpoint followed by an underscore and
  the token, and returns that body decoded.
\<close>

theorem get_version_partial:
  assumes "version \<noteq> ''LATEST_RELEASE''"
  shows "snd (get_version h version w)
           = w\<lparr>calls := calls w @
                 [Urlopen (''https://chromedriver.storage.googleapis.com/LATEST_RELEASE_'' @ version)]\<rparr>
       \<and> (\<forall>body. http_get h (''https://chromedriver.storage.googleapis.com/LATEST_RELEASE_'' @ version)
                     = Inr body
             \<longrightarrow> fst (get_version h version w) = decode h body)
       \<and> (\<forall>e. http_get h (''https://chromedriver.storage.googleapis.com/LATEST_RELEASE_'' @ version)
                     = Inl e
             \<longrightarrow> fst (get_version h version w) = Inl e)"
  using assms by (simp add: get_version_eq cdriver_latest_release_url_def Let_def)

theorem get_version_partial_witness:
  "''78'' \<noteq> ''LATEST_RELEASE''
   \<and> get_version (example_host ''Linux'' ''x86_64'') ''78'' empty_dir
     = (Inr ''78.0.3904.105'',
        empty_dir\<lparr>calls := [Urlopen ''https://chromedriver.storage.googleapis.com/LATEST_RELEASE_78'']\<rparr>)"
proof -
  let ?h = "example_host ''Linux'' ''x86_64''"
  have n: "''78'' \<noteq> ''LATEST_RELEASE''" by simp
  have a: "http_get ?h (''https://chromedriver.storage.googleapis.com/LATEST_RELEASE_'' @ ''78'')
             = Inr ''78.0.3904.105''"
    and b: "decode ?h ''78.0.3904.105'' = Inr ''78.0.3904.105''"
    by (simp_all add: example_host_def)
  show ?thesis
    using n a b get_version_partial [OF n, of ?h empty_dir]
    by (simp add: prod_eq_iff empty_dir_def)
qed

text \<open>
  Claim C9. The resolver requests the bare latest-release endpoint exactly when the token
  is the string \<open>LATEST_RELEASE\<close>, which is also what the constructor passes when
  called without an argument. Every other token is appended after an underscore and
  requested without any check: so are \<open>latest\<close> and the empty string.
\<close>

theorem get_version_sentinel_exact:
  "(\<exists>url. snd (get_version h version w) = w\<lparr>calls := calls w @ [Urlopen url]\<rparr>
          \<and> (url = cdriver_latest_release_url \<longleftrightarrow> version = ''LATEST_RELEASE'')
          \<and> (version \<noteq> ''LATEST_RELEASE'' \<longrightarrow> url = cdriver_latest_release_url @ ''_'' @ version))
   \<and> ChromeDriver_init h None w = ChromeDriver_init h (Some ''LATEST_RELEASE'') w
   \<and> snd (get_version h ''latest'' w)
       = w\<lparr>calls := calls w @ [Urlopen (cdriver_latest_release_url @ ''_latest'')]\<rparr>
   \<and> snd (get_version h '''' w)
       = w\<lparr>calls := calls w @ [Urlopen (cdriver_latest_release_url @ ''_'')]\<rparr>"
proof -
  have "\<exists>url. snd (get_version h version w) = w\<lparr>calls := calls w @ [Urlopen url]\<rparr>
          \<and> (url = cdriver_latest_release_url \<longleftrightarrow> version = ''LATEST_RELEASE'')
          \<and> (version \<noteq> ''LATEST_RELEASE'' \<longrightarrow> url = cdriver_latest_release_url @ ''_'' @ version)"
    by (cases "version = ''LATEST_RELEASE''") (simp_all add: get_version_eq Let_def)
  moreover have "ChromeDriver_init h None w = ChromeDriver_init h (Some ''LATEST_RELEASE'') w"
    by (simp add: ChromeDriver_init_def version_or_default_def)
  moreover have "snd (get_version h ''latest'' w)
       = w\<lparr>calls := calls w @ [Urlopen (cdriver_latest_release_url @ ''_latest'')]\<rparr>"
    by (simp add: get_version_eq Let_def)
  moreover have "snd (get_version h '''' w)
       = w\<lparr>calls := calls w @ [Urlopen (cdriver_latest_release_url @ ''_'')]\<rparr>"
    by (simp add: get_version_eq Let_def)
  ultimately show ?thesis by blast
qed

theorem get_version_sentinel_exact_witness:
  "snd (get_version (example_host ''Linux'' ''x86_64'') ''latest'' empty_dir)
     = empty_dir\<lparr>calls := [Urlopen ''https://chromedriver.storage.googleapis.com/LATEST_RELEASE_latest'']\<rparr>
   \<and> snd (get_version (example_host ''Linux'' ''x86_64'') '''' empty_dir)
     = empty_dir\<lparr>calls := [Urlopen ''https://chromedriver.storage.googleapis.com/LATEST_RELEASE_'']\<rparr>
   \<and> ChromeDriver_init (example_host ''Linux'' ''x86_64'') None empty_dir
     = ChromeDriver_init (example_host ''Linux'' ''x86_64'') (Some ''LATEST_RELEASE'') empty_dir"
  using get_version_sentinel_exact [of "example_host ''Linux'' ''x86_64''" "''latest''" empty_dir]
  by (simp add: cdriver_latest_release_url_def empty_dir_def)

section \<open>Steps of a download\<close>

lemma and_then_Inr:
  "and_then r k = (Inr y, w') \<longleftrightarrow> (\<exists>x w1. r = (Inr x, w1) \<and> k x w1 = (Inr y, w'))"
  by (cases r) (auto simp: and_then_def split: sum.splits)

lemma and_then_Inl:
  "and_then r k = (Inl e, w') \<longleftrightarrow>
     r = (Inl e, w') \<or> (\<exists>x w1. r = (Inr x, w1) \<and> k x w1 = (Inl e, w'))"
  by (cases r) (auto simp: and_then_def split: sum.splits)

lemma download_file_Inr:
  "download_file h url f w = (Inr u, w1) \<longleftrightarrow>
     (\<exists>b. http_get h url = Inr b
        \<and> w1 = write_bytes h (join (pwd h) f) b (record_call (Urlretrieve url (join (pwd h) f)) w))"
  by (auto simp: download_file_def Let_def split: sum.splits)

lemma download_file_Inl:
  "download_file h url f w = (Inl e, w1) \<longleftrightarrow>
     http_get h url = Inl e
     \<and> w1 = (case partial_body h url of
                None \<Rightarrow> record_call (Urlretrieve url (join (pwd h) f)) w
              | Some b \<Rightarrow> write_bytes h (join (pwd h) f) b
                           (record_call (Urlretrieve url (join (pwd h) f)) w))"
  by (auto simp: download_file_def Let_def split: sum.splits)

lemma calls_fold_write:
  "calls (fold (\<lambda>(n, b). write_bytes h (join p n) b) ms w) = calls w"
  by (induction ms arbitrary: w) (auto simp: write_bytes_def)

lemma calls_fold_put:
  "calls (fold (\<lambda>(n, m). put_file (join p n) m) ms w) = calls w"
  by (induction ms arbitrary: w) (auto simp: put_file_def)

lemma files_fold_write_keeps:
  "files w q \<noteq> None \<Longrightarrow> files (fold (\<lambda>(n, b). write_bytes h (join p n) b) ms w) q \<noteq> None"
  by (induction ms arbitrary: w) (auto simp: write_bytes_def)

lemma files_fold_put_keeps:
  "files w q \<noteq> None \<Longrightarrow> files (fold (\<lambda>(n, m). put_file (join p n) m) ms w) q \<noteq> None"
  by (induction ms arbitrary: w) (auto simp: put_file_def)

lemma files_fold_write_member:
  "n \<in> fst ` set ms \<Longrightarrow> files (fold (\<lambda>(n, b). write_bytes h (join p n) b) ms w) (join p n) \<noteq> None"
proof (induction ms arbitrary: w)
  case Nil
  then show ?case by simp
next
  case (Cons m ms)
  obtain n' b where m: "m = (n', b)" by (cases m)
  show ?case
  proof (cases "n' = n")
    case True
    have "files (write_bytes h (join p n) b w) (join p n) \<noteq> None"
      by (simp add: write_bytes_def)
    then show ?thesis using m True by (simp add: files_fold_write_keeps)
  next
    case False
    with Cons.prems m have "n \<in> fst ` set ms" by auto
    then show ?thesis using Cons.IH m by simp
  qed
qed

lemma files_fold_put_member:
  "n \<in> fst ` set ms \<Longrightarrow> files (fold (\<lambda>(n, m). put_file (join p n) m) ms w) (join p n) \<noteq> None"
proof (induction ms arbitrary: w)
  case Nil
  then show ?case by simp
next
  case (Cons m ms)
  obtain n' b where m: "m = (n', b)" by (cases m)
  show ?case
  proof (cases "n' = n")
    case True
    have "files (put_file (join p n) b w) (join p n) \<noteq> None"
      by (simp add: put_file_def)
    then show ?thesis using m True by (simp add: files_fold_put_keeps)
  next
    case False
    with Cons.prems m have "n \<in> fst ` set ms" by auto
    then show ?thesis using Cons.IH m by simp
  qed
qed

lemma files_fold_write_other:
  "\<forall>n \<in> fst ` set ms. join p n \<noteq> q \<Longrightarrow>
     files (fold (\<lambda>(n, b). write_bytes h (join p n) b) ms w) q = files w q"
  by (induction ms arbitrary: w) (auto simp: write_bytes_def)

lemma files_fold_put_other:
  "\<forall>n \<in> fst ` set ms. join p n \<noteq> q \<Longrightarrow>
     files (fold (\<lambda>(n, m). put_file (join p n) m) ms w) q = files w q"
  by (induction ms arbitrary: w) (auto simp: put_file_def)

lemma unzip_Inr:
  "unzip h file path w = (Inr u, w2) \<longleftrightarrow>
     (\<exists>f ms. files w file = Some f \<and> zip_open h (content f) = None
        \<and> zip_read h (content f) = (ms, None)
        \<and> w2 = fold (\<lambda>(n, b). write_bytes h (join path n) b) ms
                  (record_call (ZipExtractall file path) (record_call (ZipFileOpen file) w)))"
  by (auto simp: unzip_def Let_def record_call_def split: option.splits prod.splits)

lemma unzip_Inl:
  "unzip h file path w = (Inl e, w2) \<longleftrightarrow>
     (files w file = None \<and> e = FileNotFoundError file
        \<and> w2 = record_call (ZipFileOpen file) w)
     \<or> (\<exists>f. files w file = Some f \<and> zip_open h (content f) = Some e
        \<and> w2 = record_call (ZipFileOpen file) w)
     \<or> (\<exists>f ms. files w file = Some f \<and> zip_open h (content f) = None
        \<and> zip_read h (content f) = (ms, Some e)
        \<and> w2 = fold (\<lambda>(n, b). write_bytes h (join path n) b) ms
                  (record_call (ZipExtractall file path) (record_call (ZipFileOpen file) w)))"
  by (auto simp: unzip_def Let_def record_call_def split: option.splits prod.splits)

lemma untar_Inr:
  "untar h file path w = (Inr u, w2) \<longleftrightarrow>
     (\<exists>f ms. files w file = Some f \<and> tar_open h (content f) = None
        \<and> tar_read h (content f) = (ms, None)
        \<and> w2 = fold (\<lambda>(n, m). put_file (join path n) m) ms
                  (record_call (TarExtractall file path) (record_call (TarfileOpen file) w)))"
  by (auto simp: untar_def Let_def record_call_def split: option.splits prod.splits)

lemma untar_Inl:
  "untar h file path w = (Inl e, w2) \<longleftrightarrow>
     (files w file = None \<and> e = FileNotFoundError file
        \<and> w2 = record_call (TarfileOpen file) w)
     \<or> (\<exists>f. files w file = Some f \<and> tar_open h (content f) = Some e
        \<and> w2 = record_call (TarfileOpen file) w)
     \<or> (\<exists>f ms. files w file = Some f \<and> tar_open h (content f) = None
        \<and> tar_read h (content f) = (ms, Some e)
        \<and> w2 = fold (\<lambda>(n, m). put_file (join path n) m) ms
                  (record_call (TarExtractall file path) (record_call (TarfileOpen file) w)))"
  by (auto simp: untar_def Let_def record_call_def split: option.splits prod.splits)

lemma cleanup_Inr:
  "cleanup file w = (Inr u, w') \<longleftrightarrow>
     files w file \<noteq> None
     \<and> w' = (record_call (Remove file) w)\<lparr>files := (files w)(file := None)\<rparr>"
  by (auto simp: cleanup_def Let_def record_call_def split: option.splits)

lemma cleanup_Inl:
  "cleanup file w = (Inl e, w') \<longleftrightarrow>
     files w file = None \<and> e = FileNotFoundError file \<and> w' = record_call (Remove file) w"
  by (auto simp: cleanup_def Let_def record_call_def split: option.splits)

lemma os_stat_Inr:
  "os_stat path w = (Inr m, w') \<longleftrightarrow> (\<exists>f. files w path = Some f \<and> m = st_mode f \<and> w' = w)"
  by (auto simp: os_stat_def split: option.splits)

lemma os_stat_Inl:
  "os_stat path w = (Inl e, w') \<longleftrightarrow> files w path = None \<and> e = FileNotFoundError path \<and> w' = w"
  by (auto simp: os_stat_def split: option.splits)

lemma os_chmod_Inr:
  "os_chmod path mode w = (Inr u, w') \<longleftrightarrow>
     (\<exists>f. files w path = Some f
        \<and> w' = (record_call (Chmod path mode) w)
                 \<lparr>files := (files w)(path \<mapsto> f\<lparr>st_mode := mode\<rparr>)\<rparr>)"
  by (auto simp: os_chmod_def Let_def record_call_def split: option.splits)

lemma os_chmod_Inl:
  "os_chmod path mode w = (Inl e, w') \<longleftrightarrow>
     files w path = None \<and> e = FileNotFoundError path \<and> w' = record_call (Chmod path mode) w"
  by (auto simp: os_chmod_def Let_def record_call_def split: option.splits)

lemma bit_S_IXUSR: "bit S_IXUSR n \<longleftrightarrow> n = 6"
proof -
  have "S_IXUSR = (2::int) ^ 6" by (simp add: S_IXUSR_def)
  then have "bit S_IXUSR n \<longleftrightarrow> bit ((2::int) ^ 6) n" by simp
  also have "\<dots> \<longleftrightarrow> n = 6" unfolding bit_exp_iff by simp
  finally show ?thesis .
qed

lemma bit_or_S_IXUSR: "bit (m OR S_IXUSR) n \<longleftrightarrow> bit m n \<or> n = 6"
  by (simp add: bit_or_iff bit_S_IXUSR)

section \<open>Calls made by each step\<close>

lemma snd_and_then:
  "snd (and_then r k) = (case fst r of Inl e \<Rightarrow> snd r | Inr x \<Rightarrow> snd (k x (snd r)))"
  by (cases r) (auto simp: and_then_def split: sum.splits)

lemma fst_and_then:
  "fst (and_then r k) = (case fst r of Inl e \<Rightarrow> Inl e | Inr x \<Rightarrow> fst (k x (snd r)))"
  by (cases r) (auto simp: and_then_def split: sum.splits)

lemma download_file_calls:
  "calls (snd (download_file h url f w)) = calls w @ [Urlretrieve url (join (pwd h) f)]"
  by (simp add: download_file_def Let_def record_call_def write_bytes_def
           split: sum.splits option.splits)

lemma unzip_calls:
  "calls (snd (unzip h file path w)) =
     calls w @ ZipFileOpen file #
       (case files w file of
          None \<Rightarrow> []
        | Some f \<Rightarrow> (case zip_open h (content f) of
                      Some e \<Rightarrow> []
                    | None \<Rightarrow> [ZipExtractall file path]))"
  by (simp add: unzip_def Let_def record_call_def calls_fold_write
           split: option.splits prod.splits)

lemma untar_calls:
  "calls (snd (untar h file path w)) =
     calls w @ TarfileOpen file #
       (case files w file of
          None \<Rightarrow> []
        | Some f \<Rightarrow> (case tar_open h (content f) of
                      Some e \<Rightarrow> []
                    | None \<Rightarrow> [TarExtractall file path]))"
  by (simp add: untar_def Let_def record_call_def calls_fold_put
           split: option.splits prod.splits)

lemma cleanup_calls:
  "calls (snd (cleanup file w)) = calls w @ [Remove file]"
  by (simp add: cleanup_def Let_def record_call_def split: option.splits)

lemma os_stat_world: "snd (os_stat path w) = w"
  by (simp add: os_stat_def split: option.splits)

lemma os_chmod_calls:
  "calls (snd (os_chmod path mode w)) = calls w @ [Chmod path mode]"
  by (simp add: os_chmod_def Let_def record_call_def split: option.splits)

lemma get_version_world:
  "\<exists>u. snd (get_version h version w) = w\<lparr>calls := calls w @ [Urlopen u]\<rparr>"
  by (cases "version = ''LATEST_RELEASE''") (auto simp: get_version_eq Let_def)

lemma download_chromedriver_calls:
  "\<exists>cs. calls (snd (download_chromedriver h self w))
           = calls w @ Urlretrieve (cdriver_url self) (join (pwd h) ''chromedriver.zip'') # cs
        \<and> set cs \<subseteq> {ZipFileOpen (cdriver_zip_path self),
                     ZipExtractall (cdriver_zip_path self) (pwd h),
                     Remove (cdriver_zip_path self)}
                     \<union> range (Chmod (cdriver_path self))"
  by (auto simp: download_chromedriver_def snd_and_then download_file_calls unzip_calls
        cleanup_calls os_stat_world os_chmod_calls split: sum.splits option.splits)

lemma unzip_calls_Inr:
  "fst (unzip h file path w) = Inr u \<Longrightarrow>
     calls (snd (unzip h file path w)) = calls w @ [ZipFileOpen file, ZipExtractall file path]"
  by (auto simp: unzip_def Let_def record_call_def calls_fold_write
           split: option.splits prod.splits)

lemma untar_calls_Inr:
  "fst (untar h file path w) = Inr u \<Longrightarrow>
     calls (snd (untar h file path w)) = calls w @ [TarfileOpen file, TarExtractall file path]"
  by (auto simp: untar_def Let_def record_call_def calls_fold_put
           split: option.splits prod.splits)

lemma unzip_calls_any:
  "\<exists>cs. calls (snd (unzip h file path w)) = calls w @ ZipFileOpen file # cs
        \<and> prefix cs [ZipExtractall file path]"
  by (simp add: unzip_calls split: option.splits)

lemma untar_calls_any:
  "\<exists>cs. calls (snd (untar h file path w)) = calls w @ TarfileOpen file # cs
        \<and> prefix cs [TarExtractall file path]"
  by (simp add: untar_calls split: option.splits)

lemma fetch_extract_cleanup_calls:
  assumes d: "calls (snd d) = calls w @ [r]"
    and any: "\<exists>cs. calls (snd (ex (snd d))) = calls (snd d) @ op # cs \<and> prefix cs [x]"
    and ok: "\<And>u. fst (ex (snd d)) = Inr u \<Longrightarrow> calls (snd (ex (snd d))) = calls (snd d) @ [op, x]"
  shows "\<exists>cs. calls (snd (and_then d (\<lambda>_ w1. and_then (ex w1) (\<lambda>_ w2. cleanup z w2))))
               = calls w @ r # cs
           \<and> prefix cs [op, x, Remove z]"
proof (cases "fst d")
  case (Inl e)
  then have "calls (snd (and_then d (\<lambda>_ w1. and_then (ex w1) (\<lambda>_ w2. cleanup z w2))))
               = calls w @ r # []"
    by (simp add: snd_and_then d)
  then show ?thesis by (intro exI [of _ "[]"]) simp
next
  case d_ok: (Inr u)
  show ?thesis
  proof (cases "fst (ex (snd d))")
    case (Inl e)
    from any obtain cs where c: "calls (snd (ex (snd d))) = calls (snd d) @ op # cs"
      and p: "prefix cs [x]" by blast
    from p have "prefix cs ([x] @ [Remove z])" by (rule prefix_prefix)
    then have p': "prefix (op # cs) [op, x, Remove z]" by simp
    have "calls (snd (and_then d (\<lambda>_ w1. and_then (ex w1) (\<lambda>_ w2. cleanup z w2))))
               = calls w @ r # (op # cs)"
      using d_ok Inl by (simp add: snd_and_then c d)
    with p' show ?thesis by blast
  next
    case (Inr u')
    have "calls (snd (and_then d (\<lambda>_ w1. and_then (ex w1) (\<lambda>_ w2. cleanup z w2))))
               = calls w @ r # [op, x, Remove z]"
      using d_ok Inr by (simp add: snd_and_then ok [OF Inr] d cleanup_calls)
    then show ?thesis by (intro exI [of _ "[op, x, Remove z]"]) simp
  qed
qed

lemma download_geckodriver_calls:
  "\<exists>cs. calls (snd (download_geckodriver h self w))
           = calls w @ Urlretrieve (gdriver_url self)
               (join (pwd h) (if system h = ''Windows'' then ''geckodriver.zip''
                              else ''geckodriver.tar.gz'')) # cs
        \<and> prefix cs
             (if system h = ''Windows''
              then [ZipFileOpen (gdriver_zip_path self),
                    ZipExtractall (gdriver_zip_path self) (pwd h),
                    Remove (gdriver_zip_path self)]
              else [TarfileOpen (gdriver_tar_gz_path self),
                    TarExtractall (gdriver_tar_gz_path self) (pwd h),
                    Remove (gdriver_tar_gz_path self)])"
proof (cases "system h = ''Windows''")
  case True
  have "\<exists>cs. calls (snd (and_then (download_file h (gdriver_url self) ''geckodriver.zip'' w)
                 (\<lambda>_ w1. and_then (unzip h (gdriver_zip_path self) (pwd h) w1)
                   (\<lambda>_ w2. cleanup (gdriver_zip_path self) w2))))
               = calls w @ Urlretrieve (gdriver_url self) (join (pwd h) ''geckodriver.zip'') # cs
           \<and> prefix cs [ZipFileOpen (gdriver_zip_path self),
                         ZipExtractall (gdriver_zip_path self) (pwd h),
                         Remove (gdriver_zip_path self)]"
    by (rule fetch_extract_cleanup_calls
          [where d = "download_file h (gdriver_url self) ''geckodriver.zip'' w"
             and ex = "unzip h (gdriver_zip_path self) (pwd h)" and w = w,
           OF download_file_calls unzip_calls_any unzip_calls_Inr])
  with True show ?thesis by (simp add: download_geckodriver_def)
next
  case False
  have "\<exists>cs. calls (snd (and_then (download_file h (gdriver_url self) ''geckodriver.tar.gz'' w)
                 (\<lambda>_ w1. and_then (untar h (gdriver_tar_gz_path self) (pwd h) w1)
                   (\<lambda>_ w2. cleanup (gdriver_tar_gz_path self) w2))))
               = calls w @ Urlretrieve (gdriver_url self) (join (pwd h) ''geckodriver.tar.gz'') # cs
           \<and> prefix cs [TarfileOpen (gdriver_tar_gz_path self),
                         TarExtractall (gdriver_tar_gz_path self) (pwd h),
                         Remove (gdriver_tar_gz_path self)]"
    by (rule fetch_extract_cleanup_calls
          [where d = "download_file h (gdriver_url self) ''geckodriver.tar.gz'' w"
             and ex = "untar h (gdriver_tar_gz_path self) (pwd h)" and w = w,
           OF download_file_calls untar_calls_any untar_calls_Inr])
  with False show ?thesis by (simp add: download_geckodriver_def)
qed

section \<open>Construction of the Chrome driver object\<close>

lemma ChromeDriver_init_fst:
  "fst (ChromeDriver_init h arg w) =
      (case fst (get_version h (version_or_default arg) w) of
         Inl e \<Rightarrow> Inl e
       | Inr v \<Rightarrow>
          (case get_cdriver_download_url h v of
             Inl e \<Rightarrow> Inl e
           | Inr url \<Rightarrow>
               Inr \<lparr>cd_version = v, cdriver_url = url,
                    cdriver_path = pwd h @ ''/chromedriver'',
                    cdriver_zip_path = pwd h @ ''/chromedriver.zip''\<rparr>))"
  by (simp add: ChromeDriver_init_def fst_and_then split: sum.splits)

lemma ChromeDriver_init_snd:
  "snd (ChromeDriver_init h arg w) = snd (get_version h (version_or_default arg) w)"
  by (simp add: ChromeDriver_init_def snd_and_then split: sum.splits)

lemma ChromeDriver_init_paths:
  assumes "fst (ChromeDriver_init h arg w) = Inr self"
  shows "cdriver_path self = join (pwd h) ''chromedriver''
       \<and> cdriver_zip_path self = join (pwd h) ''chromedriver.zip''"
  using assms unfolding ChromeDriver_init_fst
  by (auto simp: join_def split: sum.splits)


text \<open>
  Claim C6. Constructing the Chrome driver object makes the resolver's GET, and nothing
  else, before any download is asked for. An error of the transport or of decoding is
  the constructor's result, unchanged, and so is the NotImplementedError of the URL
  builder on an unsupported system; otherwise the object holds the resolved version and
  the URL built from it. The download action, on any object, starts with the retrieval
  of the object's URL and makes no resolver call.
\<close>

theorem ChromeDriver_init_eager:
  "(\<exists>u. calls (snd (get_version h (version_or_default arg) w)) = calls w @ [Urlopen u])
   \<and> (\<forall>u. calls (snd (get_version h (version_or_default arg) w)) = calls w @ [Urlopen u] \<longrightarrow>
          snd (ChromeDriver_init h arg w) = w\<lparr>calls := calls w @ [Urlopen u]\<rparr>
        \<and> (\<forall>e. http_get h u = Inl e \<longrightarrow> fst (ChromeDriver_init h arg w) = Inl e)
        \<and> (\<forall>b e. http_get h u = Inr b \<and> decode h b = Inl e \<longrightarrow>
              fst (ChromeDriver_init h arg w) = Inl e)
        \<and> (\<forall>b v. http_get h u = Inr b \<and> decode h b = Inr v \<longrightarrow>
              fst (ChromeDriver_init h arg w) =
                (case get_cdriver_download_url h v of
                   Inl e \<Rightarrow> Inl e
                 | Inr url \<Rightarrow>
                     Inr \<lparr>cd_version = v, cdriver_url = url,
                          cdriver_path = pwd h @ ''/chromedriver'',
                          cdriver_zip_path = pwd h @ ''/chromedriver.zip''\<rparr>))
        \<and> (\<forall>b v. http_get h u = Inr b \<and> decode h b = Inr v
              \<and> system h \<notin> {''Darwin'', ''Linux'', ''Windows''} \<longrightarrow>
              fst (ChromeDriver_init h arg w)
                = Inl (NotImplementedError ''This OS is not implemented yet.'')))
   \<and> (\<exists>cs. calls (snd (download_chromedriver h self w'))
              = calls w' @ Urlretrieve (cdriver_url self) (join (pwd h) ''chromedriver.zip'') # cs
           \<and> (\<forall>u. Urlopen u \<notin> set cs))"
proof -
  let ?tok = "version_or_default arg"
  let ?u = "if ?tok = ''LATEST_RELEASE'' then cdriver_latest_release_url
            else cdriver_latest_release_url @ ''_'' @ ?tok"
  have gv: "get_version h ?tok w =
      ((case http_get h ?u of Inl e \<Rightarrow> Inl e | Inr body \<Rightarrow> decode h body),
       w\<lparr>calls := calls w @ [Urlopen ?u]\<rparr>)"
    by (simp add: get_version_eq Let_def)
  have ex: "\<exists>u. calls (snd (get_version h ?tok w)) = calls w @ [Urlopen u]"
    unfolding gv by simp
  have main: "snd (ChromeDriver_init h arg w) = w\<lparr>calls := calls w @ [Urlopen u]\<rparr>
        \<and> (\<forall>e. http_get h u = Inl e \<longrightarrow> fst (ChromeDriver_init h arg w) = Inl e)
        \<and> (\<forall>b e. http_get h u = Inr b \<and> decode h b = Inl e \<longrightarrow>
              fst (ChromeDriver_init h arg w) = Inl e)
        \<and> (\<forall>b v. http_get h u = Inr b \<and> decode h b = Inr v \<longrightarrow>
              fst (ChromeDriver_init h arg w) =
                (case get_cdriver_download_url h v of
                   Inl e \<Rightarrow> Inl e
                 | Inr url \<Rightarrow>
                     Inr \<lparr>cd_version = v, cdriver_url = url,
                          cdriver_path = pwd h @ ''/chromedriver'',
                          cdriver_zip_path = pwd h @ ''/chromedriver.zip''\<rparr>))
        \<and> (\<forall>b v. http_get h u = Inr b \<and> decode h b = Inr v
              \<and> system h \<notin> {''Darwin'', ''Linux'', ''Windows''} \<longrightarrow>
              fst (ChromeDriver_init h arg w)
                = Inl (NotImplementedError ''This OS is not implemented yet.''))"
    if "calls (snd (get_version h ?tok w)) = calls w @ [Urlopen u]" for u
  proof -
    from that have u: "u = ?u" unfolding gv by simp
    have s: "snd (ChromeDriver_init h arg w) = w\<lparr>calls := calls w @ [Urlopen u]\<rparr>"
      unfolding ChromeDriver_init_snd gv u by simp
    have f: "fst (ChromeDriver_init h arg w) =
      (case http_get h u of
         Inl e \<Rightarrow> Inl e
       | Inr body \<Rightarrow>
          (case decode h body of
             Inl e \<Rightarrow> Inl e
           | Inr v \<Rightarrow>
              (case get_cdriver_download_url h v of
                 Inl e \<Rightarrow> Inl e
               | Inr url \<Rightarrow>
                   Inr \<lparr>cd_version = v, cdriver_url = url,
                        cdriver_path = pwd h @ ''/chromedriver'',
                        cdriver_zip_path = pwd h @ ''/chromedriver.zip''\<rparr>)))"
      unfolding ChromeDriver_init_fst gv u by (simp split: sum.splits)
    have os: "get_cdriver_download_url h v
                = Inl (NotImplementedError ''This OS is not implemented yet.'')"
      if "system h \<notin> {''Darwin'', ''Linux'', ''Windows''}" for v
      using that by (simp add: get_cdriver_download_url_def)
    show ?thesis using s os by (simp add: f)
  qed
  obtain cs where cs: "calls (snd (download_chromedriver h self w'))
           = calls w' @ Urlretrieve (cdriver_url self) (join (pwd h) ''chromedriver.zip'') # cs"
    and sub: "set cs \<subseteq> {ZipFileOpen (cdriver_zip_path self),
                         ZipExtractall (cdriver_zip_path self) (pwd h),
                         Remove (cdriver_zip_path self)}
                     \<union> range (Chmod (cdriver_path self))"
    using download_chromedriver_calls [of h self w'] by blast
  from sub have "\<forall>u. Urlopen u \<notin> set cs" by auto
  with cs have dl: "\<exists>cs. calls (snd (download_chromedriver h self w'))
              = calls w' @ Urlretrieve (cdriver_url self) (join (pwd h) ''chromedriver.zip'') # cs
           \<and> (\<forall>u. Urlopen u \<notin> set cs)" by blast
  show ?thesis
  proof (intro conjI allI impI)
    show "\<exists>u. calls (snd (get_version h ?tok w)) = calls w @ [Urlopen u]" by (rule ex)
  next
    show "\<exists>cs. calls (snd (download_chromedriver h self w'))
              = calls w' @ Urlretrieve (cdriver_url self) (join (pwd h) ''chromedriver.zip'') # cs
           \<and> (\<forall>u. Urlopen u \<notin> set cs)" by (rule dl)
  qed (use main in \<open>blast+\<close>)
qed


theorem ChromeDriver_init_eager_witness:
  "ChromeDriver_init (example_host ''Windows'' ''AMD64'') (Some ''78'') empty_dir
     = (Inr \<lparr>cd_version = ''78.0.3904.105'',
             cdriver_url = ''https://chromedriver.storage.googleapis.com/78.0.3904.105/chromedriver_win32.zip'',
             cdriver_path = ''/opt/drivers/chromedriver'',
             cdriver_zip_path = ''/opt/drivers/chromedriver.zip''\<rparr>,
        empty_dir\<lparr>calls := [Urlopen ''https://chromedriver.storage.googleapis.com/LATEST_RELEASE_78'']\<rparr>)
   \<and> ChromeDriver_init (example_host ''Linux'' ''x86_64'') (Some ''1'') empty_dir
     = (Inl (TransportError ''HTTP Error 404: Not Found''),
        empty_dir\<lparr>calls := [Urlopen ''https://chromedriver.storage.googleapis.com/LATEST_RELEASE_1'']\<rparr>)
   \<and> ChromeDriver_init (example_host ''FreeBSD'' ''amd64'') None empty_dir
     = (Inl (NotImplementedError ''This OS is not implemented yet.''),
        empty_dir\<lparr>calls := [Urlopen ''https://chromedriver.storage.googleapis.com/LATEST_RELEASE'']\<rparr>)"
proof -
  let ?W = "example_host ''Windows'' ''AMD64''"
  let ?L = "example_host ''Linux'' ''x86_64''"
  let ?F = "example_host ''FreeBSD'' ''amd64''"
  let ?u78 = "''https://chromedriver.storage.googleapis.com/LATEST_RELEASE_78''"
  let ?u1 = "''https://chromedriver.storage.googleapis.com/LATEST_RELEASE_1''"
  let ?u = "''https://chromedriver.storage.googleapis.com/LATEST_RELEASE''"
  note t = ChromeDriver_init_eager [THEN conjunct2, THEN conjunct1, THEN spec, THEN mp]
  have cW: "calls (snd (get_version ?W (version_or_default (Some ''78'')) empty_dir))
              = calls empty_dir @ [Urlopen ?u78]"
   and cL: "calls (snd (get_version ?L (version_or_default (Some ''1'')) empty_dir))
              = calls empty_dir @ [Urlopen ?u1]"
   and cF: "calls (snd (get_version ?F (version_or_default None) empty_dir))
              = calls empty_dir @ [Urlopen ?u]"
    by (simp_all add: get_version_eq Let_def version_or_default_def cdriver_latest_release_url_def)
  have hW: "http_get ?W ?u78 = Inr ''78.0.3904.105'' \<and> decode ?W ''78.0.3904.105'' = Inr ''78.0.3904.105''"
    and hL: "http_get ?L ?u1 = Inl (TransportError ''HTTP Error 404: Not Found'')"
    and hF: "http_get ?F ?u = Inr ''79.0.3945.36'' \<and> decode ?F ''79.0.3945.36'' = Inr ''79.0.3945.36''
             \<and> system ?F \<notin> {''Darwin'', ''Linux'', ''Windows''}"
    by (simp_all add: example_host_def)
  have uW: "get_cdriver_download_url ?W ''78.0.3904.105''
     = Inr ''https://chromedriver.storage.googleapis.com/78.0.3904.105/chromedriver_win32.zip''"
    and pW: "pwd ?W = ''/opt/drivers''"
    by (simp_all add: get_cdriver_download_url_def format_cdriver example_host_def)
  have sW: "snd (ChromeDriver_init ?W (Some ''78'') empty_dir)
              = empty_dir\<lparr>calls := calls empty_dir @ [Urlopen ?u78]\<rparr>"
    by (rule t [OF cW, THEN conjunct1])
  have fW: "fst (ChromeDriver_init ?W (Some ''78'') empty_dir) =
              (case get_cdriver_download_url ?W ''78.0.3904.105'' of
                 Inl e \<Rightarrow> Inl e
               | Inr url \<Rightarrow>
                   Inr \<lparr>cd_version = ''78.0.3904.105'', cdriver_url = url,
                        cdriver_path = pwd ?W @ ''/chromedriver'',
                        cdriver_zip_path = pwd ?W @ ''/chromedriver.zip''\<rparr>)"
    by (rule t [OF cW, THEN conjunct2, THEN conjunct2, THEN conjunct2, THEN conjunct1,
                THEN spec, THEN spec, THEN mp, OF hW])
  have W: "ChromeDriver_init ?W (Some ''78'') empty_dir
     = (Inr \<lparr>cd_version = ''78.0.3904.105'',
             cdriver_url = ''https://chromedriver.storage.googleapis.com/78.0.3904.105/chromedriver_win32.zip'',
             cdriver_path = ''/opt/drivers/chromedriver'',
             cdriver_zip_path = ''/opt/drivers/chromedriver.zip''\<rparr>,
        empty_dir\<lparr>calls := [Urlopen ?u78]\<rparr>)"
    unfolding prod_eq_iff fst_conv snd_conv sW fW uW pW by (simp add: empty_dir_def)
  have sL: "snd (ChromeDriver_init ?L (Some ''1'') empty_dir)
              = empty_dir\<lparr>calls := calls empty_dir @ [Urlopen ?u1]\<rparr>"
    by (rule t [OF cL, THEN conjunct1])
  have fL: "fst (ChromeDriver_init ?L (Some ''1'') empty_dir)
              = Inl (TransportError ''HTTP Error 404: Not Found'')"
    by (rule t [OF cL, THEN conjunct2, THEN conjunct1, THEN spec, THEN mp, OF hL])
  have L: "ChromeDriver_init ?L (Some ''1'') empty_dir
     = (Inl (TransportError ''HTTP Error 404: Not Found''), empty_dir\<lparr>calls := [Urlopen ?u1]\<rparr>)"
    unfolding prod_eq_iff fst_conv snd_conv sL fL by (simp add: empty_dir_def)
  have sF: "snd (ChromeDriver_init ?F None empty_dir)
              = empty_dir\<lparr>calls := calls empty_dir @ [Urlopen ?u]\<rparr>"
    by (rule t [OF cF, THEN conjunct1])
  have fF: "fst (ChromeDriver_init ?F None empty_dir)
              = Inl (NotImplementedError ''This OS is not implemented yet.'')"
    by (rule t [OF cF, THEN conjunct2, THEN conjunct2, THEN conjunct2, THEN conjunct2,
                THEN spec, THEN spec, THEN mp, OF hF])
  have F: "ChromeDriver_init ?F None empty_dir
     = (Inl (NotImplementedError ''This OS is not implemented yet.''),
        empty_dir\<lparr>calls := [Urlopen ?u]\<rparr>)"
    unfolding prod_eq_iff fst_conv snd_conv sF fF by (simp add: empty_dir_def)
  from W L F show ?thesis by (intro conjI)
qed

section \<open>A download that succeeds\<close>

lemma and_then_InrD:
  assumes "and_then r k = (Inr y, w')"
  shows "fst r = Inr (projr (fst r)) \<and> k (projr (fst r)) (snd r) = (Inr y, w')"
  using assms by (cases r; cases "fst r") (auto simp: and_then_def)

lemma unzip_keeps_archive:
  assumes "unzip h file path w = (Inr u, w2)"
  shows "files w2 file \<noteq> None"
proof -
  from assms obtain f ms where f: "files w file = Some f"
    and w2: "w2 = fold (\<lambda>(n, b). write_bytes h (join path n) b) ms
                    (record_call (ZipExtractall file path) (record_call (ZipFileOpen file) w))"
    unfolding unzip_Inr by blast
  have "files (record_call (ZipExtractall file path) (record_call (ZipFileOpen file) w)) file
          \<noteq> None"
    using f by (simp add: record_call_def)
  then show ?thesis unfolding w2 by (rule files_fold_write_keeps)
qed

lemma untar_keeps_archive:
  assumes "untar h file path w = (Inr u, w2)"
  shows "files w2 file \<noteq> None"
proof -
  from assms obtain f ms where f: "files w file = Some f"
    and w2: "w2 = fold (\<lambda>(n, m). put_file (join path n) m) ms
                    (record_call (TarExtractall file path) (record_call (TarfileOpen file) w))"
    unfolding untar_Inr by blast
  have "files (record_call (TarExtractall file path) (record_call (TarfileOpen file) w)) file
          \<noteq> None"
    using f by (simp add: record_call_def)
  then show ?thesis unfolding w2 by (rule files_fold_put_keeps)
qed

lemma download_chromedriver_success:
  assumes ok: "download_chromedriver h self w = (Inr (), w')"
    and w1: "w1 = snd (download_file h (cdriver_url self) ''chromedriver.zip'' w)"
    and w2: "w2 = snd (unzip h (cdriver_zip_path self) (pwd h) w1)"
  shows "download_file h (cdriver_url self) ''chromedriver.zip'' w = (Inr (), w1)"
    and "unzip h (cdriver_zip_path self) (pwd h) w1 = (Inr (), w2)"
    and "system h \<noteq> ''Windows'' \<Longrightarrow>
           \<exists>f. files w2 (cdriver_path self) = Some f
              \<and> w' = w2\<lparr>files := ((files w2)(cdriver_path self \<mapsto>
                                     f\<lparr>st_mode := st_mode f OR S_IXUSR\<rparr>))
                                   (cdriver_zip_path self := None),
                         calls := calls w2 @ [Chmod (cdriver_path self) (st_mode f OR S_IXUSR),
                                              Remove (cdriver_zip_path self)]\<rparr>"
    and "system h = ''Windows'' \<Longrightarrow>
           w' = w2\<lparr>files := (files w2)(cdriver_zip_path self := None),
                   calls := calls w2 @ [Remove (cdriver_zip_path self)]\<rparr>"
proof -
  let ?p = "cdriver_path self" and ?z = "cdriver_zip_path self"
  note d1 = and_then_InrD [OF ok [unfolded download_chromedriver_def]]
  from d1 show a: "download_file h (cdriver_url self) ''chromedriver.zip'' w = (Inr (), w1)"
    by (simp add: w1 prod_eq_iff)
  have k1: "and_then (unzip h ?z (pwd h) w1) (\<lambda>_ w2.
     and_then (if \<not> system h = ''Windows''
               then and_then (os_stat ?p w2) (\<lambda>m w3. os_chmod ?p (m OR S_IXUSR) w3)
               else (Inr (), w2)) (\<lambda>_ w4. cleanup ?z w4)) = (Inr (), w')"
    unfolding w1 by (rule d1 [THEN conjunct2])
  note d2 = and_then_InrD [OF k1]
  from d2 show b: "unzip h ?z (pwd h) w1 = (Inr (), w2)"
    by (simp add: w2 prod_eq_iff)
  have k2: "and_then (if \<not> system h = ''Windows''
               then and_then (os_stat ?p w2) (\<lambda>m w3. os_chmod ?p (m OR S_IXUSR) w3)
               else (Inr (), w2)) (\<lambda>_ w4. cleanup ?z w4) = (Inr (), w')"
    unfolding w2 by (rule d2 [THEN conjunct2])
  {
    assume win: "system h = ''Windows''"
    from k2 win have "cleanup ?z w2 = (Inr (), w')"
      by (simp add: and_then_def)
    then show "w' = w2\<lparr>files := (files w2)(?z := None), calls := calls w2 @ [Remove ?z]\<rparr>"
      by (simp add: cleanup_Inr record_call_def)
  }
  {
    assume nwin: "system h \<noteq> ''Windows''"
    from k2 nwin obtain w4 where
      c: "and_then (os_stat ?p w2) (\<lambda>m w3. os_chmod ?p (m OR S_IXUSR) w3) = (Inr (), w4)"
      and r: "cleanup ?z w4 = (Inr (), w')"
      by (auto simp: and_then_Inr)
    from c obtain f where f: "files w2 ?p = Some f"
      and w4: "w4 = (record_call (Chmod ?p (st_mode f OR S_IXUSR)) w2)
                 \<lparr>files := (files w2)(?p \<mapsto> f\<lparr>st_mode := st_mode f OR S_IXUSR\<rparr>)\<rparr>"
      by (auto simp: and_then_Inr os_stat_Inr os_chmod_Inr)
    from r have "w' = (record_call (Remove ?z) w4)\<lparr>files := (files w4)(?z := None)\<rparr>"
      by (simp add: cleanup_Inr)
    then have "w' = w2\<lparr>files := ((files w2)(?p \<mapsto> f\<lparr>st_mode := st_mode f OR S_IXUSR\<rparr>))
                                   (?z := None),
                         calls := calls w2 @ [Chmod ?p (st_mode f OR S_IXUSR), Remove ?z]\<rparr>"
      by (simp add: w4 record_call_def)
    with f show "\<exists>f. files w2 ?p = Some f
              \<and> w' = w2\<lparr>files := ((files w2)(?p \<mapsto> f\<lparr>st_mode := st_mode f OR S_IXUSR\<rparr>))
                                   (?z := None),
                         calls := calls w2 @ [Chmod ?p (st_mode f OR S_IXUSR), Remove ?z]\<rparr>"
      by blast
  }
qed

section \<open>Failing extractions, archive members\<close>

lemma download_chromedriver_extract_fails:
  assumes "download_file h (cdriver_url self) ''chromedriver.zip'' w = (Inr (), w1)"
    and "unzip h (cdriver_zip_path self) (pwd h) w1 = (Inl e, w2)"
  shows "download_chromedriver h self w = (Inl e, w2)"
  using assms by (simp add: download_chromedriver_def and_then_def)

lemma download_geckodriver_extract_fails_zip:
  assumes "system h = ''Windows''"
    and "download_file h (gdriver_url self) ''geckodriver.zip'' w = (Inr (), w1)"
    and "unzip h (gdriver_zip_path self) (pwd h) w1 = (Inl e, w2)"
  shows "download_geckodriver h self w = (Inl e, w2)"
  using assms by (simp add: download_geckodriver_def and_then_def)

lemma download_geckodriver_extract_fails_tar:
  assumes "system h \<noteq> ''Windows''"
    and "download_file h (gdriver_url self) ''geckodriver.tar.gz'' w = (Inr (), w1)"
    and "untar h (gdriver_tar_gz_path self) (pwd h) w1 = (Inl e, w2)"
  shows "download_geckodriver h self w = (Inl e, w2)"
  using assms by (simp add: download_geckodriver_def and_then_def)

lemma download_file_writes:
  assumes "download_file h url f w = (Inr u, w1)"
  shows "\<exists>b m. http_get h url = Inr b
           \<and> files w1 (join (pwd h) f) = Some \<lparr>content = b, st_mode = m\<rparr>"
  using assms by (auto simp: download_file_Inr write_bytes_def record_call_def)

lemma unzip_fails_keeps_archive:
  assumes "files w file \<noteq> None" and "unzip h file path w = (Inl e, w2)"
  shows "files w2 file \<noteq> None
       \<and> (\<exists>cs. calls w2 = calls w @ ZipFileOpen file # cs \<and> prefix cs [ZipExtractall file path])"
proof -
  from assms consider
      (refused) "w2 = record_call (ZipFileOpen file) w"
    | (broken) ms where "w2 = fold (\<lambda>(n, b). write_bytes h (join path n) b) ms
                    (record_call (ZipExtractall file path) (record_call (ZipFileOpen file) w))"
    unfolding unzip_Inl by auto
  then have "files w2 file \<noteq> None"
  proof cases
    case refused
    with assms(1) show ?thesis by (simp add: record_call_def)
  next
    case broken
    have "files (record_call (ZipExtractall file path) (record_call (ZipFileOpen file) w)) file
            \<noteq> None"
      using assms(1) by (simp add: record_call_def)
    then show ?thesis unfolding broken by (rule files_fold_write_keeps)
  qed
  moreover have "\<exists>cs. calls w2 = calls w @ ZipFileOpen file # cs
                    \<and> prefix cs [ZipExtractall file path]"
    using unzip_calls_any [of h "file" path w] assms(2) by simp
  ultimately show ?thesis by simp
qed

lemma untar_fails_keeps_archive:
  assumes "files w file \<noteq> None" and "untar h file path w = (Inl e, w2)"
  shows "files w2 file \<noteq> None
       \<and> (\<exists>cs. calls w2 = calls w @ TarfileOpen file # cs \<and> prefix cs [TarExtractall file path])"
proof -
  from assms consider
      (refused) "w2 = record_call (TarfileOpen file) w"
    | (broken) ms where "w2 = fold (\<lambda>(n, m). put_file (join path n) m) ms
                    (record_call (TarExtractall file path) (record_call (TarfileOpen file) w))"
    unfolding untar_Inl by auto
  then have "files w2 file \<noteq> None"
  proof cases
    case refused
    with assms(1) show ?thesis by (simp add: record_call_def)
  next
    case broken
    have "files (record_call (TarExtractall file path) (record_call (TarfileOpen file) w)) file
            \<noteq> None"
      using assms(1) by (simp add: record_call_def)
    then show ?thesis unfolding broken by (rule files_fold_put_keeps)
  qed
  moreover have "\<exists>cs. calls w2 = calls w @ TarfileOpen file # cs
                    \<and> prefix cs [TarExtractall file path]"
    using untar_calls_any [of h "file" path w] assms(2) by simp
  ultimately show ?thesis by simp
qed

lemma unzip_member_present:
  assumes "unzip h file path w = (Inr u, w2)" and "files w file = Some f"
    and "n \<in> fst ` set (fst (zip_read h (content f)))"
  shows "files w2 (join path n) \<noteq> None"
proof -
  from assms(1,2) obtain ms where ms: "zip_read h (content f) = (ms, None)"
    and w2: "w2 = fold (\<lambda>(n, b). write_bytes h (join path n) b) ms
                    (record_call (ZipExtractall file path) (record_call (ZipFileOpen file) w))"
    unfolding unzip_Inr by auto
  from assms(3) ms have "n \<in> fst ` set ms" by simp
  then show ?thesis unfolding w2 by (rule files_fold_write_member)
qed

lemma untar_member_present:
  assumes "untar h file path w = (Inr u, w2)" and "files w file = Some f"
    and "n \<in> fst ` set (fst (tar_read h (content f)))"
  shows "files w2 (join path n) \<noteq> None"
proof -
  from assms(1,2) obtain ms where ms: "tar_read h (content f) = (ms, None)"
    and w2: "w2 = fold (\<lambda>(n, m). put_file (join path n) m) ms
                    (record_call (TarExtractall file path) (record_call (TarfileOpen file) w))"
    unfolding untar_Inr by auto
  from assms(3) ms have "n \<in> fst ` set ms" by simp
  then show ?thesis unfolding w2 by (rule files_fold_put_member)
qed

lemma suffix_last: "suffix xs ys \<Longrightarrow> xs \<noteq> [] \<Longrightarrow> last ys = last xs"
  by (auto simp: suffix_def)

lemma GeckoDriver_init_fields:
  assumes "fst (GeckoDriver_init h v w) = Inr self"
  shows "get_gdriver_download_url h v = Inr (gdriver_url self)
       \<and> gd_version self = v
       \<and> gdriver_path self = join (pwd h) ''geckodriver''
       \<and> gdriver_zip_path self = join (pwd h) ''geckodriver.zip''
       \<and> gdriver_tar_gz_path self = join (pwd h) ''geckodriver.tar.gz''"
  using assms by (auto simp: GeckoDriver_init_def join_def split: sum.splits)

section \<open>After the extraction\<close>

lemma cleanup_present:
  assumes "files w file \<noteq> None"
  shows "cleanup file w
           = (Inr (), w\<lparr>files := (files w)(file := None), calls := calls w @ [Remove file]\<rparr>)"
  using assms by (auto simp: cleanup_def Let_def record_call_def split: option.splits)

lemma chrome_after_extraction:
  assumes init: "fst (ChromeDriver_init h arg w0) = Inr self"
    and d: "download_file h (cdriver_url self) ''chromedriver.zip'' w = (Inr (), w1)"
    and u: "unzip h (cdriver_zip_path self) (pwd h) w1 = (Inr (), w2)"
  shows "files w2 (cdriver_zip_path self) \<noteq> None"
    and "calls w2 = calls w @ [Urlretrieve (cdriver_url self) (cdriver_zip_path self),
                               ZipFileOpen (cdriver_zip_path self),
                               ZipExtractall (cdriver_zip_path self) (pwd h)]"
    and "system h = ''Windows'' \<Longrightarrow>
           download_chromedriver h self w
             = (Inr (), w2\<lparr>files := (files w2)(cdriver_zip_path self := None),
                           calls := calls w2 @ [Remove (cdriver_zip_path self)]\<rparr>)"
    and "system h \<noteq> ''Windows'' \<Longrightarrow> files w2 (cdriver_path self) = Some f \<Longrightarrow>
           download_chromedriver h self w
             = (Inr (), w2\<lparr>files := ((files w2)(cdriver_path self \<mapsto>
                                         f\<lparr>st_mode := st_mode f OR S_IXUSR\<rparr>))
                                       (cdriver_zip_path self := None),
                           calls := calls w2 @ [Chmod (cdriver_path self) (st_mode f OR S_IXUSR),
                                                Remove (cdriver_zip_path self)]\<rparr>)"
    and "system h \<noteq> ''Windows'' \<Longrightarrow> files w2 (cdriver_path self) = None \<Longrightarrow>
           download_chromedriver h self w = (Inl (FileNotFoundError (cdriver_path self)), w2)"
    and "http_get h (cdriver_url self) = Inr b \<Longrightarrow>
           ''chromedriver'' \<in> fst ` set (fst (zip_read h b)) \<Longrightarrow>
           files w2 (cdriver_path self) \<noteq> None"
proof -
  let ?p = "cdriver_path self" and ?z = "cdriver_zip_path self" and ?url = "cdriver_url self"
  have p: "?p = join (pwd h) ''chromedriver''" and z: "?z = join (pwd h) ''chromedriver.zip''"
    using ChromeDriver_init_paths [OF init] by simp_all
  show arch: "files w2 ?z \<noteq> None" by (rule unzip_keeps_archive [OF u])
  have c1: "calls w1 = calls w @ [Urlretrieve ?url ?z]"
    using download_file_calls [of h ?url "''chromedriver.zip''" w] d z by simp
  have "calls w2 = calls w1 @ [ZipFileOpen ?z, ZipExtractall ?z (pwd h)]"
    using unzip_calls_Inr [of h ?z "pwd h" w1 "()"] u by simp
  with c1 show "calls w2 = calls w @ [Urlretrieve ?url ?z, ZipFileOpen ?z,
                                    ZipExtractall ?z (pwd h)]"
    by simp
  {
    assume win: "system h = ''Windows''"
    show "download_chromedriver h self w
             = (Inr (), w2\<lparr>files := (files w2)(?z := None), calls := calls w2 @ [Remove ?z]\<rparr>)"
      using win by (simp add: download_chromedriver_def and_then_def d u cleanup_present [OF arch])
  }
  {
    assume nwin: "system h \<noteq> ''Windows''" and f: "files w2 ?p = Some f"
    let ?w4 = "w2\<lparr>files := (files w2)(?p \<mapsto> f\<lparr>st_mode := st_mode f OR S_IXUSR\<rparr>),
                   calls := calls w2 @ [Chmod ?p (st_mode f OR S_IXUSR)]\<rparr>"
    have s: "os_stat ?p w2 = (Inr (st_mode f), w2)"
      using f by (simp add: os_stat_def)
    have c: "os_chmod ?p (st_mode f OR S_IXUSR) w2 = (Inr (), ?w4)"
      using f by (simp add: os_chmod_def Let_def record_call_def)
    have a4: "files ?w4 ?z \<noteq> None" using arch by simp
    have "download_chromedriver h self w = cleanup ?z ?w4"
      using nwin by (simp add: download_chromedriver_def and_then_def d u s c)
    then show "download_chromedriver h self w
             = (Inr (), w2\<lparr>files := ((files w2)(?p \<mapsto> f\<lparr>st_mode := st_mode f OR S_IXUSR\<rparr>))
                                       (?z := None),
                           calls := calls w2 @ [Chmod ?p (st_mode f OR S_IXUSR), Remove ?z]\<rparr>)"
      by (simp add: cleanup_present [OF a4])
  }
  {
    assume nwin: "system h \<noteq> ''Windows''" and f: "files w2 ?p = None"
    have s: "os_stat ?p w2 = (Inl (FileNotFoundError ?p), w2)"
      using f by (simp add: os_stat_def)
    show "download_chromedriver h self w = (Inl (FileNotFoundError ?p), w2)"
      using nwin by (simp add: download_chromedriver_def and_then_def d u s)
  }
  {
    assume b: "http_get h ?url = Inr b"
      and m: "''chromedriver'' \<in> fst ` set (fst (zip_read h b))"
    from download_file_writes [OF d] b obtain m' where
      f1: "files w1 ?z = Some \<lparr>content = b, st_mode = m'\<rparr>"
      unfolding z by auto
    have "files w2 (join (pwd h) ''chromedriver'') \<noteq> None"
      by (rule unzip_member_present [OF u f1]) (use m in simp)
    then show "files w2 ?p \<noteq> None" unfolding p .
  }
qed

lemma chrome_success_leaves:
  assumes init: "fst (ChromeDriver_init h arg w0) = Inr self"
    and d: "download_file h (cdriver_url self) ''chromedriver.zip'' w = (Inr (), w1)"
    and u: "unzip h (cdriver_zip_path self) (pwd h) w1 = (Inr (), w2)"
    and ok: "download_chromedriver h self w = (Inr (), w')"
  shows "files w' (cdriver_zip_path self) = None
       \<and> (files w' (cdriver_path self) \<noteq> None \<longleftrightarrow> files w2 (cdriver_path self) \<noteq> None)
       \<and> (system h \<noteq> ''Windows'' \<longrightarrow> files w' (cdriver_path self) \<noteq> None)"
proof -
  let ?p = "cdriver_path self" and ?z = "cdriver_zip_path self"
  note a = chrome_after_extraction [OF init d u]
  have pz: "?p \<noteq> ?z"
    using ChromeDriver_init_paths [OF init] by (simp add: join_def)
  show ?thesis
  proof (cases "system h = ''Windows''")
    case True
    from a(3) [OF True] ok
    have "w' = w2\<lparr>files := (files w2)(?z := None), calls := calls w2 @ [Remove ?z]\<rparr>"
      by simp
    with pz True show ?thesis by simp
  next
    case False
    show ?thesis
    proof (cases "files w2 ?p")
      case None
      from a(5) [OF False None] ok show ?thesis by simp
    next
      case (Some f)
      from a(4) [OF False Some] ok
      have "w' = w2\<lparr>files := ((files w2)(?p \<mapsto> f\<lparr>st_mode := st_mode f OR S_IXUSR\<rparr>))
                                       (?z := None),
                     calls := calls w2 @ [Chmod ?p (st_mode f OR S_IXUSR), Remove ?z]\<rparr>"
        by simp
      with pz Some show ?thesis by simp
    qed
  qed
qed

lemma chrome_extract_fails:
  assumes init: "fst (ChromeDriver_init h arg w0) = Inr self"
    and d: "download_file h (cdriver_url self) ''chromedriver.zip'' w = (Inr (), w1)"
    and u: "unzip h (cdriver_zip_path self) (pwd h) w1 = (Inl e, w2)"
  shows "download_chromedriver h self w = (Inl e, w2)
       \<and> files w2 (cdriver_zip_path self) \<noteq> None
       \<and> (\<exists>cs. calls w2 = calls w @ Urlretrieve (cdriver_url self) (cdriver_zip_path self)
                             # ZipFileOpen (cdriver_zip_path self) # cs
              \<and> prefix cs [ZipExtractall (cdriver_zip_path self) (pwd h)])"
proof -
  let ?z = "cdriver_zip_path self"
  have z: "?z = join (pwd h) ''chromedriver.zip''"
    using ChromeDriver_init_paths [OF init] by simp
  from download_file_writes [OF d] have f1: "files w1 ?z \<noteq> None" unfolding z by auto
  have c1: "calls w1 = calls w @ [Urlretrieve (cdriver_url self) ?z]"
    using download_file_calls [of h "cdriver_url self" "''chromedriver.zip''" w] d z by simp
  note k = unzip_fails_keeps_archive [OF f1 u]
  show ?thesis
    using download_chromedriver_extract_fails [OF d u] k c1 by simp
qed

lemma gecko_after_extraction:
  assumes init: "fst (GeckoDriver_init h v w0) = Inr self"
    and a: "a = join (pwd h) (gecko_archive_name h)"
    and d: "download_file h (gdriver_url self) (gecko_archive_name h) w = (Inr (), w1)"
    and u: "gecko_extract h a w1 = (Inr (), w2)"
  shows "files w2 a \<noteq> None"
    and "calls w2 = calls w @ [Urlretrieve (gdriver_url self) a, gecko_open_call h a,
                               gecko_extract_call h a]"
    and "download_geckodriver h self w
           = (Inr (), w2\<lparr>files := (files w2)(a := None), calls := calls w2 @ [Remove a]\<rparr>)"
    and "http_get h (gdriver_url self) = Inr b \<Longrightarrow>
           ''geckodriver'' \<in> set (gecko_members h b) \<Longrightarrow>
           files w2 (gdriver_path self) \<noteq> None"
    and "gdriver_path self \<noteq> a"
proof -
  note f = GeckoDriver_init_fields [OF init]
  have p: "gdriver_path self = join (pwd h) ''geckodriver''" using f by simp
  show pa: "gdriver_path self \<noteq> a" unfolding p a by (simp add: join_def)
  have c1: "calls w1 = calls w @ [Urlretrieve (gdriver_url self) a]"
    using download_file_calls [of h "gdriver_url self" "gecko_archive_name h" w] d a by simp
  show arch: "files w2 a \<noteq> None"
  proof (cases "system h = ''Windows''")
    case True
    with u have "unzip h a (pwd h) w1 = (Inr (), w2)" by simp
    then show ?thesis by (rule unzip_keeps_archive)
  next
    case False
    with u have "untar h a (pwd h) w1 = (Inr (), w2)" by simp
    then show ?thesis by (rule untar_keeps_archive)
  qed
  show "calls w2 = calls w @ [Urlretrieve (gdriver_url self) a, gecko_open_call h a,
                               gecko_extract_call h a]"
  proof (cases "system h = ''Windows''")
    case True
    with u have "unzip h a (pwd h) w1 = (Inr (), w2)" by simp
    then have "calls w2 = calls w1 @ [ZipFileOpen a, ZipExtractall a (pwd h)]"
      using unzip_calls_Inr [of h a "pwd h" w1 "()"] by simp
    with c1 True show ?thesis by simp
  next
    case False
    with u have "untar h a (pwd h) w1 = (Inr (), w2)" by simp
    then have "calls w2 = calls w1 @ [TarfileOpen a, TarExtractall a (pwd h)]"
      using untar_calls_Inr [of h a "pwd h" w1 "()"] by simp
    with c1 False show ?thesis by simp
  qed
  show "download_geckodriver h self w
           = (Inr (), w2\<lparr>files := (files w2)(a := None), calls := calls w2 @ [Remove a]\<rparr>)"
  proof (cases "system h = ''Windows''")
    case True
    then have z: "gdriver_zip_path self = a" using f a by simp
    from u True have u': "unzip h a (pwd h) w1 = (Inr (), w2)" by simp
    from d True have d': "download_file h (gdriver_url self) ''geckodriver.zip'' w = (Inr (), w1)"
      by simp
    show ?thesis
      using True by (simp add: download_geckodriver_def and_then_def d' z u'
                        cleanup_present [OF arch])
  next
    case False
    then have z: "gdriver_tar_gz_path self = a" using f a by simp
    from u False have u': "untar h a (pwd h) w1 = (Inr (), w2)" by simp
    from d False have d': "download_file h (gdriver_url self) ''geckodriver.tar.gz'' w = (Inr (), w1)"
      by simp
    show ?thesis
      using False by (simp add: download_geckodriver_def and_then_def d' z u'
                         cleanup_present [OF arch])
  qed
  {
    assume b: "http_get h (gdriver_url self) = Inr b"
      and m: "''geckodriver'' \<in> set (gecko_members h b)"
    from download_file_writes [OF d] b obtain m' where
      f1: "files w1 a = Some \<lparr>content = b, st_mode = m'\<rparr>"
      unfolding a by auto
    show "files w2 (gdriver_path self) \<noteq> None"
    proof (cases "system h = ''Windows''")
      case True
      with u have u': "unzip h a (pwd h) w1 = (Inr (), w2)" by simp
      have "files w2 (join (pwd h) ''geckodriver'') \<noteq> None"
        by (rule unzip_member_present [OF u' f1]) (use m True in simp)
      then show ?thesis unfolding p .
    next
      case False
      with u have u': "untar h a (pwd h) w1 = (Inr (), w2)" by simp
      have "files w2 (join (pwd h) ''geckodriver'') \<noteq> None"
        by (rule untar_member_present [OF u' f1]) (use m False in simp)
      then show ?thesis unfolding p .
    qed
  }
qed

lemma gecko_extract_fails:
  assumes init: "fst (GeckoDriver_init h v w0) = Inr self"
    and a: "a = join (pwd h) (gecko_archive_name h)"
    and d: "download_file h (gdriver_url self) (gecko_archive_name h) w = (Inr (), w1)"
    and u: "gecko_extract h a w1 = (Inl e, w2)"
  shows "download_geckodriver h self w = (Inl e, w2)
       \<and> files w2 a \<noteq> None
       \<and> (\<exists>cs. calls w2 = calls w @ Urlretrieve (gdriver_url self) a # gecko_open_call h a # cs
              \<and> prefix cs [gecko_extract_call h a])"
proof -
  note f = GeckoDriver_init_fields [OF init]
  from download_file_writes [OF d] have f1: "files w1 a \<noteq> None" unfolding a by auto
  have c1: "calls w1 = calls w @ [Urlretrieve (gdriver_url self) a]"
    using download_file_calls [of h "gdriver_url self" "gecko_archive_name h" w] d a by simp
  show ?thesis
  proof (cases "system h = ''Windows''")
    case True
    then have z: "gdriver_zip_path self = a" using f a by simp
    from u True have u': "unzip h a (pwd h) w1 = (Inl e, w2)" by simp
    from d True have d': "download_file h (gdriver_url self) ''geckodriver.zip'' w = (Inr (), w1)"
      by simp
    note k = unzip_fails_keeps_archive [OF f1 u']
    show ?thesis
      using download_geckodriver_extract_fails_zip [OF True d' u' [folded z]] k c1 True
      by simp
  next
    case False
    then have z: "gdriver_tar_gz_path self = a" using f a by simp
    from u False have u': "untar h a (pwd h) w1 = (Inl e, w2)" by simp
    from d False have d': "download_file h (gdriver_url self) ''geckodriver.tar.gz'' w = (Inr (), w1)"
      by simp
    note k = untar_fails_keeps_archive [OF f1 u']
    show ?thesis
      using download_geckodriver_extract_fails_tar [OF False d' u' [folded z]] k c1 False
      by simp
  qed
qed

section \<open>Runs on the example hosts\<close>

lemmas run_defs =
  download_chromedriver_def download_geckodriver_def and_then_def download_file_def
  unzip_def untar_def cleanup_def os_stat_def os_chmod_def record_call_def write_bytes_def
  put_file_def join_def Let_def S_IXUSR_def empty_dir_def suffix_to_prefix

lemma linux_chromedriver_init:
  "fst (ChromeDriver_init (example_host ''Linux'' ''x86_64'') (Some ''78'') empty_dir)
     = Inr linux_chromedriver"
  by (simp add: ChromeDriver_init_fst get_version_eq Let_def version_or_default_def
        cdriver_latest_release_url_def get_cdriver_download_url_def format_cdriver
        example_host_def linux_chromedriver_def)

lemma linux_geckodriver_init:
  "fst (GeckoDriver_init (example_host ''Linux'' ''x86_64'') ''0.26.0'' empty_dir)
     = Inr linux_geckodriver"
  by (simp add: GeckoDriver_init_def get_gdriver_download_url_def format_gdriver
        example_host_def linux_geckodriver_def)

lemma readme_geckodriver_init:
  "fst (GeckoDriver_init (readme_host ''Linux'' ''x86_64'') ''0.26.0'' empty_dir)
     = Inr linux_geckodriver"
  by (simp add: GeckoDriver_init_def get_gdriver_download_url_def format_gdriver
        readme_host_def example_host_def linux_geckodriver_def)

lemma linux_chromedriver_run:
  "fst (download_chromedriver (example_host ''Linux'' ''x86_64'') linux_chromedriver empty_dir)
     = Inr ()"
  "files (snd (download_chromedriver (example_host ''Linux'' ''x86_64'') linux_chromedriver
                 empty_dir)) ''/opt/drivers/chromedriver''
     = Some \<lparr>content = ''MZ'', st_mode = 33252\<rparr>"
  "files (snd (download_chromedriver (example_host ''Linux'' ''x86_64'') linux_chromedriver
                 empty_dir)) ''/opt/drivers/chromedriver.zip'' = None"
  by (simp_all add: run_defs example_host_def linux_chromedriver_def)

lemma linux_geckodriver_run:
  "fst (download_geckodriver (example_host ''Linux'' ''x86_64'') linux_geckodriver empty_dir)
     = Inr ()"
  "files (snd (download_geckodriver (example_host ''Linux'' ''x86_64'') linux_geckodriver
                 empty_dir)) ''/opt/drivers/geckodriver''
     = Some \<lparr>content = ''ELF'', st_mode = 33261\<rparr>"
  "files (snd (download_geckodriver (example_host ''Linux'' ''x86_64'') linux_geckodriver
                 empty_dir)) ''/opt/drivers/geckodriver.tar.gz'' = None"
  by (simp_all add: run_defs example_host_def linux_geckodriver_def)

lemma readme_geckodriver_run:
  "fst (download_geckodriver (readme_host ''Linux'' ''x86_64'') linux_geckodriver empty_dir)
     = Inr ()"
  "files (snd (download_geckodriver (readme_host ''Linux'' ''x86_64'') linux_geckodriver
                 empty_dir)) ''/opt/drivers/geckodriver'' = None"
  "files (snd (download_geckodriver (readme_host ''Linux'' ''x86_64'') linux_geckodriver
                 empty_dir)) ''/opt/drivers/geckodriver.tar.gz'' = None"
  "files (snd (download_geckodriver (readme_host ''Linux'' ''x86_64'') linux_geckodriver
                 empty_dir)) ''/opt/drivers/README''
     = Some \<lparr>content = ''ELF'', st_mode = 33261\<rparr>"
  by (simp_all add: run_defs readme_host_def example_host_def linux_geckodriver_def)

lemma readme_chromedriver_init:
  "fst (ChromeDriver_init (readme_host ''Linux'' ''x86_64'') (Some ''78'') empty_dir)
     = Inr linux_chromedriver"
  by (simp add: ChromeDriver_init_fst get_version_eq Let_def version_or_default_def
        cdriver_latest_release_url_def get_cdriver_download_url_def format_cdriver
        readme_host_def example_host_def linux_chromedriver_def)

lemma readme_chromedriver_run:
  "fst (unzip (readme_host ''Linux'' ''x86_64'') (cdriver_zip_path linux_chromedriver)
          (pwd (readme_host ''Linux'' ''x86_64''))
          (snd (download_file (readme_host ''Linux'' ''x86_64'') (cdriver_url linux_chromedriver)
                  ''chromedriver.zip'' empty_dir))) = Inr ()"
  "fst (download_chromedriver (readme_host ''Linux'' ''x86_64'') linux_chromedriver empty_dir)
     = Inl (FileNotFoundError ''/opt/drivers/chromedriver'')"
  "files (snd (download_chromedriver (readme_host ''Linux'' ''x86_64'') linux_chromedriver
                 empty_dir)) ''/opt/drivers/chromedriver.zip''
     = Some \<lparr>content = ''zip:README'', st_mode = 33188\<rparr>"
  "calls (snd (download_chromedriver (readme_host ''Linux'' ''x86_64'') linux_chromedriver
                 empty_dir))
     = [Urlretrieve (cdriver_url linux_chromedriver) ''/opt/drivers/chromedriver.zip'',
        ZipFileOpen ''/opt/drivers/chromedriver.zip'',
        ZipExtractall ''/opt/drivers/chromedriver.zip'' ''/opt/drivers'']"
  by (simp_all add: run_defs readme_host_def example_host_def linux_chromedriver_def)

section \<open>Cleanup strictly after extraction\<close>

text \<open>
  Claim C8, as stated, has the archive deleted after every extraction that returns, in
  both flows and whatever the archive held, and promises the driver-named file after
  every successful download. On a host whose archives hold only a README, the Firefox
  download succeeds and removes the archive, and no file named \<open>geckodriver\<close> exists
  afterwards; the Chrome download on Linux raises FileNotFoundError from \<open>os.stat\<close> after
  the extraction has returned, the archive is still on disk and no removal was called.
\<close>

theorem driver_file_missing_counterexample:
  "fst (GeckoDriver_init (readme_host ''Linux'' ''x86_64'') ''0.26.0'' empty_dir)
     = Inr linux_geckodriver
   \<and> fst (download_geckodriver (readme_host ''Linux'' ''x86_64'') linux_geckodriver empty_dir)
     = Inr ()
   \<and> files (snd (download_geckodriver (readme_host ''Linux'' ''x86_64'') linux_geckodriver
                   empty_dir)) (gdriver_tar_gz_path linux_geckodriver) = None
   \<and> files (snd (download_geckodriver (readme_host ''Linux'' ''x86_64'') linux_geckodriver
                   empty_dir)) (gdriver_path linux_geckodriver) = None
   \<and> fst (ChromeDriver_init (readme_host ''Linux'' ''x86_64'') (Some ''78'') empty_dir)
     = Inr linux_chromedriver
   \<and> fst (unzip (readme_host ''Linux'' ''x86_64'') (cdriver_zip_path linux_chromedriver)
            (pwd (readme_host ''Linux'' ''x86_64''))
            (snd (download_file (readme_host ''Linux'' ''x86_64'')
                    (cdriver_url linux_chromedriver) ''chromedriver.zip'' empty_dir))) = Inr ()
   \<and> fst (download_chromedriver (readme_host ''Linux'' ''x86_64'') linux_chromedriver empty_dir)
     = Inl (FileNotFoundError ''/opt/drivers/chromedriver'')
   \<and> files (snd (download_chromedriver (readme_host ''Linux'' ''x86_64'') linux_chromedriver
                   empty_dir)) (cdriver_zip_path linux_chromedriver) \<noteq> None
   \<and> Remove (cdriver_zip_path linux_chromedriver)
       \<notin> set (calls (snd (download_chromedriver (readme_host ''Linux'' ''x86_64'')
                             linux_chromedriver empty_dir)))"
  using readme_geckodriver_init readme_geckodriver_run readme_chromedriver_init
    readme_chromedriver_run
  by (simp add: linux_geckodriver_def linux_chromedriver_def)

text \<open>
  Claim C8, amended. In both flows, once the archive is fetched, the removal of the
  archive is a call of its own that comes after the extraction has returned, with the
  archive still on disk at that point. In the Firefox flow and in the Chrome flow on
  Windows it follows every extraction that returns, whatever the archive held, and the
  download succeeds. In the Chrome flow on another host the permission change comes
  between: if the extraction left a file named \<open>chromedriver\<close> the download changes its
  mode, removes the archive and succeeds; if it left none, \<open>os.stat\<close> raises
  FileNotFoundError, which is the download's result, and the archive stays on disk with
  no removal called. When the opening of the archive or the extraction raises, the
  download raises the same error with the world as it is then: the archive is on disk
  and no removal has been called. After a download that succeeds the archive is gone,
  and the driver-named file exists exactly if it did when the extraction returned, which
  is so whenever the archive had a member of that name.
\<close>

theorem archive_removed_after_extraction:
  "(fst (ChromeDriver_init h arg w0) = Inr cd
      \<and> download_file h (cdriver_url cd) ''chromedriver.zip'' w = (Inr (), w1) \<longrightarrow>
      (\<forall>w2. unzip h (cdriver_zip_path cd) (pwd h) w1 = (Inr (), w2) \<longrightarrow>
           files w2 (cdriver_zip_path cd) \<noteq> None
         \<and> calls w2 = calls w @ [Urlretrieve (cdriver_url cd) (cdriver_zip_path cd),
                                  ZipFileOpen (cdriver_zip_path cd),
                                  ZipExtractall (cdriver_zip_path cd) (pwd h)]
         \<and> (system h = ''Windows'' \<longrightarrow>
              download_chromedriver h cd w
                = (Inr (), w2\<lparr>files := (files w2)(cdriver_zip_path cd := None),
                              calls := calls w2 @ [Remove (cdriver_zip_path cd)]\<rparr>))
         \<and> (\<forall>f. system h \<noteq> ''Windows'' \<and> files w2 (cdriver_path cd) = Some f \<longrightarrow>
              download_chromedriver h cd w
                = (Inr (), w2\<lparr>files := ((files w2)(cdriver_path cd \<mapsto>
                                            f\<lparr>st_mode := st_mode f OR S_IXUSR\<rparr>))
                                          (cdriver_zip_path cd := None),
                              calls := calls w2 @ [Chmod (cdriver_path cd) (st_mode f OR S_IXUSR),
                                                   Remove (cdriver_zip_path cd)]\<rparr>))
         \<and> (system h \<noteq> ''Windows'' \<and> files w2 (cdriver_path cd) = None \<longrightarrow>
              download_chromedriver h cd w = (Inl (FileNotFoundError (cdriver_path cd)), w2))
         \<and> (\<forall>b. http_get h (cdriver_url cd) = Inr b
                  \<and> ''chromedriver'' \<in> fst ` set (fst (zip_read h b))
               \<longrightarrow> files w2 (cdriver_path cd) \<noteq> None)
         \<and> (\<forall>w'. download_chromedriver h cd w = (Inr (), w') \<longrightarrow>
                files w' (cdriver_zip_path cd) = None
              \<and> (files w' (cdriver_path cd) \<noteq> None \<longleftrightarrow> files w2 (cdriver_path cd) \<noteq> None)
              \<and> (system h \<noteq> ''Windows'' \<longrightarrow> files w' (cdriver_path cd) \<noteq> None)))
    \<and> (\<forall>e w2. unzip h (cdriver_zip_path cd) (pwd h) w1 = (Inl e, w2) \<longrightarrow>
           download_chromedriver h cd w = (Inl e, w2)
         \<and> files w2 (cdriver_zip_path cd) \<noteq> None
         \<and> (\<exists>cs. calls w2 = calls w @ Urlretrieve (cdriver_url cd) (cdriver_zip_path cd)
                               # ZipFileOpen (cdriver_zip_path cd) # cs
                \<and> prefix cs [ZipExtractall (cdriver_zip_path cd) (pwd h)])))
   \<and> (fst (GeckoDriver_init h v w0') = Inr gd
      \<and> a = join (pwd h) (gecko_archive_name h)
      \<and> download_file h (gdriver_url gd) (gecko_archive_name h) w = (Inr (), w1') \<longrightarrow>
      (\<forall>w2. gecko_extract h a w1' = (Inr (), w2) \<longrightarrow>
           files w2 a \<noteq> None
         \<and> calls w2 = calls w @ [Urlretrieve (gdriver_url gd) a, gecko_open_call h a,
                                  gecko_extract_call h a]
         \<and> download_geckodriver h gd w
             = (Inr (), w2\<lparr>files := (files w2)(a := None), calls := calls w2 @ [Remove a]\<rparr>)
         \<and> gdriver_path gd \<noteq> a
         \<and> (\<forall>b. http_get h (gdriver_url gd) = Inr b
                  \<and> ''geckodriver'' \<in> set (gecko_members h b)
               \<longrightarrow> files w2 (gdriver_path gd) \<noteq> None))
    \<and> (\<forall>e w2. gecko_extract h a w1' = (Inl e, w2) \<longrightarrow>
           download_geckodriver h gd w = (Inl e, w2)
         \<and> files w2 a \<noteq> None
         \<and> (\<exists>cs. calls w2 = calls w @ Urlretrieve (gdriver_url gd) a # gecko_open_call h a # cs
                \<and> prefix cs [gecko_extract_call h a])))"
proof (rule conjI)
  show "fst (ChromeDriver_init h arg w0) = Inr cd
      \<and> download_file h (cdriver_url cd) ''chromedriver.zip'' w = (Inr (), w1) \<longrightarrow>
      (\<forall>w2. unzip h (cdriver_zip_path cd) (pwd h) w1 = (Inr (), w2) \<longrightarrow>
           files w2 (cdriver_zip_path cd) \<noteq> None
         \<and> calls w2 = calls w @ [Urlretrieve (cdriver_url cd) (cdriver_zip_path cd),
                                  ZipFileOpen (cdriver_zip_path cd),
                                  ZipExtractall (cdriver_zip_path cd) (pwd h)]
         \<and> (system h = ''Windows'' \<longrightarrow>
              download_chromedriver h cd w
                = (Inr (), w2\<lparr>files := (files w2)(cdriver_zip_path cd := None),
                              calls := calls w2 @ [Remove (cdriver_zip_path cd)]\<rparr>))
         \<and> (\<forall>f. system h \<noteq> ''Windows'' \<and> files w2 (cdriver_path cd) = Some f \<longrightarrow>
              download_chromedriver h cd w
                = (Inr (), w2\<lparr>files := ((files w2)(cdriver_path cd \<mapsto>
                                            f\<lparr>st_mode := st_mode f OR S_IXUSR\<rparr>))
                                          (cdriver_zip_path cd := None),
                              calls := calls w2 @ [Chmod (cdriver_path cd) (st_mode f OR S_IXUSR),
                                                   Remove (cdriver_zip_path cd)]\<rparr>))
         \<and> (system h \<noteq> ''Windows'' \<and> files w2 (cdriver_path cd) = None \<longrightarrow>
              download_chromedriver h cd w = (Inl (FileNotFoundError (cdriver_path cd)), w2))
         \<and> (\<forall>b. http_get h (cdriver_url cd) = Inr b
                  \<and> ''chromedriver'' \<in> fst ` set (fst (zip_read h b))
               \<longrightarrow> files w2 (cdriver_path cd) \<noteq> None)
         \<and> (\<forall>w'. download_chromedriver h cd w = (Inr (), w') \<longrightarrow>
                files w' (cdriver_zip_path cd) = None
              \<and> (files w' (cdriver_path cd) \<noteq> None \<longleftrightarrow> files w2 (cdriver_path cd) \<noteq> None)
              \<and> (system h \<noteq> ''Windows'' \<longrightarrow> files w' (cdriver_path cd) \<noteq> None)))
    \<and> (\<forall>e w2. unzip h (cdriver_zip_path cd) (pwd h) w1 = (Inl e, w2) \<longrightarrow>
           download_chromedriver h cd w = (Inl e, w2)
         \<and> files w2 (cdriver_zip_path cd) \<noteq> None
         \<and> (\<exists>cs. calls w2 = calls w @ Urlretrieve (cdriver_url cd) (cdriver_zip_path cd)
                               # ZipFileOpen (cdriver_zip_path cd) # cs
                \<and> prefix cs [ZipExtractall (cdriver_zip_path cd) (pwd h)]))"
  proof (intro impI conjI allI)
    assume "fst (ChromeDriver_init h arg w0) = Inr cd
      \<and> download_file h (cdriver_url cd) ''chromedriver.zip'' w = (Inr (), w1)"
    then have init: "fst (ChromeDriver_init h arg w0) = Inr cd"
      and d: "download_file h (cdriver_url cd) ''chromedriver.zip'' w = (Inr (), w1)"
      by simp_all
    {
      fix w2 assume u: "unzip h (cdriver_zip_path cd) (pwd h) w1 = (Inr (), w2)"
      note r = chrome_after_extraction [OF init d u]
      show "files w2 (cdriver_zip_path cd) \<noteq> None" by (rule r(1))
      show "calls w2 = calls w @ [Urlretrieve (cdriver_url cd) (cdriver_zip_path cd),
                                  ZipFileOpen (cdriver_zip_path cd),
                                  ZipExtractall (cdriver_zip_path cd) (pwd h)]" by (rule r(2))
      {
        assume "system h = ''Windows''"
        then show "download_chromedriver h cd w
                = (Inr (), w2\<lparr>files := (files w2)(cdriver_zip_path cd := None),
                              calls := calls w2 @ [Remove (cdriver_zip_path cd)]\<rparr>)"
          by (rule r(3))
      }
      {
        fix f assume "system h \<noteq> ''Windows'' \<and> files w2 (cdriver_path cd) = Some f"
        then have "system h \<noteq> ''Windows''" and "files w2 (cdriver_path cd) = Some f"
          by simp_all
        then show "download_chromedriver h cd w
                = (Inr (), w2\<lparr>files := ((files w2)(cdriver_path cd \<mapsto>
                                            f\<lparr>st_mode := st_mode f OR S_IXUSR\<rparr>))
                                          (cdriver_zip_path cd := None),
                              calls := calls w2 @ [Chmod (cdriver_path cd) (st_mode f OR S_IXUSR),
                                                   Remove (cdriver_zip_path cd)]\<rparr>)"
          by (rule r(4))
      }
      {
        assume "system h \<noteq> ''Windows'' \<and> files w2 (cdriver_path cd) = None"
        then have "system h \<noteq> ''Windows''" and "files w2 (cdriver_path cd) = None"
          by simp_all
        then show "download_chromedriver h cd w
                     = (Inl (FileNotFoundError (cdriver_path cd)), w2)"
          by (rule r(5))
      }
      {
        fix b assume "http_get h (cdriver_url cd) = Inr b
                  \<and> ''chromedriver'' \<in> fst ` set (fst (zip_read h b))"
        then have "http_get h (cdriver_url cd) = Inr b"
          and "''chromedriver'' \<in> fst ` set (fst (zip_read h b))" by simp_all
        then show "files w2 (cdriver_path cd) \<noteq> None" by (rule r(6))
      }
      {
        fix w' assume ok: "download_chromedriver h cd w = (Inr (), w')"
        note l = chrome_success_leaves [OF init d u ok]
        show "files w' (cdriver_zip_path cd) = None" by (rule l [THEN conjunct1])
        show "(files w' (cdriver_path cd) \<noteq> None)
                = (files w2 (cdriver_path cd) \<noteq> None)"
          by (rule l [THEN conjunct2, THEN conjunct1])
        {
          assume nw: "system h \<noteq> ''Windows''"
          show "files w' (cdriver_path cd) \<noteq> None"
            by (rule l [THEN conjunct2, THEN conjunct2, THEN mp, OF nw])
        }
      }
    }
    {
      fix e w2 assume u: "unzip h (cdriver_zip_path cd) (pwd h) w1 = (Inl e, w2)"
      note r = chrome_extract_fails [OF init d u]
      from r show "download_chromedriver h cd w = (Inl e, w2)" by simp
      from r show "files w2 (cdriver_zip_path cd) \<noteq> None" by simp
      from r show "\<exists>cs. calls w2 = calls w @ Urlretrieve (cdriver_url cd) (cdriver_zip_path cd)
                               # ZipFileOpen (cdriver_zip_path cd) # cs
                \<and> prefix cs [ZipExtractall (cdriver_zip_path cd) (pwd h)]" by simp
    }
  qed
next
  show "fst (GeckoDriver_init h v w0') = Inr gd
      \<and> a = join (pwd h) (gecko_archive_name h)
      \<and> download_file h (gdriver_url gd) (gecko_archive_name h) w = (Inr (), w1') \<longrightarrow>
      (\<forall>w2. gecko_extract h a w1' = (Inr (), w2) \<longrightarrow>
           files w2 a \<noteq> None
         \<and> calls w2 = calls w @ [Urlretrieve (gdriver_url gd) a, gecko_open_call h a,
                                  gecko_extract_call h a]
         \<and> download_geckodriver h gd w
             = (Inr (), w2\<lparr>files := (files w2)(a := None), calls := calls w2 @ [Remove a]\<rparr>)
         \<and> gdriver_path gd \<noteq> a
         \<and> (\<forall>b. http_get h (gdriver_url gd) = Inr b
                  \<and> ''geckodriver'' \<in> set (gecko_members h b)
               \<longrightarrow> files w2 (gdriver_path gd) \<noteq> None))
    \<and> (\<forall>e w2. gecko_extract h a w1' = (Inl e, w2) \<longrightarrow>
           download_geckodriver h gd w = (Inl e, w2)
         \<and> files w2 a \<noteq> None
         \<and> (\<exists>cs. calls w2 = calls w @ Urlretrieve (gdriver_url gd) a # gecko_open_call h a # cs
                \<and> prefix cs [gecko_extract_call h a]))"
  proof (intro impI conjI allI)
    assume "fst (GeckoDriver_init h v w0') = Inr gd
      \<and> a = join (pwd h) (gecko_archive_name h)
      \<and> download_file h (gdriver_url gd) (gecko_archive_name h) w = (Inr (), w1')"
    then have init: "fst (GeckoDriver_init h v w0') = Inr gd"
      and a: "a = join (pwd h) (gecko_archive_name h)"
      and d: "download_file h (gdriver_url gd) (gecko_archive_name h) w = (Inr (), w1')"
      by simp_all
    {
      fix w2 assume u: "gecko_extract h a w1' = (Inr (), w2)"
      note r = gecko_after_extraction [OF init a d u]
      show "files w2 a \<noteq> None" by (rule r(1))
      show "calls w2 = calls w @ [Urlretrieve (gdriver_url gd) a, gecko_open_call h a,
                                  gecko_extract_call h a]" by (rule r(2))
      show "download_geckodriver h gd w
             = (Inr (), w2\<lparr>files := (files w2)(a := None), calls := calls w2 @ [Remove a]\<rparr>)"
        by (rule r(3))
      show "gdriver_path gd \<noteq> a" by (rule r(5))
      {
        fix b assume "http_get h (gdriver_url gd) = Inr b
                  \<and> ''geckodriver'' \<in> set (gecko_members h b)"
        then have "http_get h (gdriver_url gd) = Inr b"
          and "''geckodriver'' \<in> set (gecko_members h b)" by simp_all
        then show "files w2 (gdriver_path gd) \<noteq> None" by (rule r(4))
      }
    }
    {
      fix e w2 assume u: "gecko_extract h a w1' = (Inl e, w2)"
      note r = gecko_extract_fails [OF init a d u]
      from r show "download_geckodriver h gd w = (Inl e, w2)" by simp
      from r show "files w2 a \<noteq> None" by simp
      from r show "\<exists>cs. calls w2 = calls w @ Urlretrieve (gdriver_url gd) a
                               # gecko_open_call h a # cs
                \<and> prefix cs [gecko_extract_call h a]" by simp
    }
  qed
qed

theorem archive_removed_after_extraction_witness:
  "fst (ChromeDriver_init (example_host ''Linux'' ''x86_64'') (Some ''78'') empty_dir)
     = Inr linux_chromedriver
   \<and> fst (download_file (example_host ''Linux'' ''x86_64'') (cdriver_url linux_chromedriver)
            ''chromedriver.zip'' empty_dir) = Inr ()
   \<and> fst (unzip (example_host ''Linux'' ''x86_64'') (cdriver_zip_path linux_chromedriver)
            (pwd (example_host ''Linux'' ''x86_64''))
            (snd (download_file (example_host ''Linux'' ''x86_64'')
                    (cdriver_url linux_chromedriver) ''chromedriver.zip'' empty_dir))) = Inr ()
   \<and> system (example_host ''Linux'' ''x86_64'') \<noteq> ''Windows''
   \<and> fst (download_chromedriver (example_host ''Linux'' ''x86_64'') linux_chromedriver empty_dir)
     = Inr ()
   \<and> fst (GeckoDriver_init (example_host ''Linux'' ''x86_64'') ''0.26.0'' empty_dir)
     = Inr linux_geckodriver
   \<and> fst (download_file (example_host ''Linux'' ''x86_64'') (gdriver_url linux_geckodriver)
            ''geckodriver.tar.gz'' empty_dir) = Inr ()
   \<and> fst (untar (example_host ''Linux'' ''x86_64'') ''/opt/drivers/geckodriver.tar.gz''
            (pwd (example_host ''Linux'' ''x86_64''))
            (snd (download_file (example_host ''Linux'' ''x86_64'')
                    (gdriver_url linux_geckodriver) ''geckodriver.tar.gz'' empty_dir))) = Inr ()
   \<and> fst (download_geckodriver (example_host ''Linux'' ''x86_64'') linux_geckodriver empty_dir)
     = Inr ()"
proof -
  let ?H = "example_host ''Linux'' ''x86_64''"
  let ?c1 = "snd (download_file ?H (cdriver_url linux_chromedriver) ''chromedriver.zip'' empty_dir)"
  let ?c2 = "snd (unzip ?H (cdriver_zip_path linux_chromedriver) (pwd ?H) ?c1)"
  let ?a = "''/opt/drivers/geckodriver.tar.gz''"
  let ?g1 = "snd (download_file ?H (gdriver_url linux_geckodriver) (gecko_archive_name ?H)
                    empty_dir)"
  let ?g2 = "snd (gecko_extract ?H ?a ?g1)"
  have nw: "system ?H \<noteq> ''Windows''" by (simp add: example_host_def)
  have dc: "fst (download_file ?H (cdriver_url linux_chromedriver) ''chromedriver.zip'' empty_dir)
              = Inr ()"
    and uc: "fst (unzip ?H (cdriver_zip_path linux_chromedriver) (pwd ?H) ?c1) = Inr ()"
    and fc: "files ?c2 (cdriver_path linux_chromedriver)
               = Some \<lparr>content = ''MZ'', st_mode = 33188\<rparr>"
    by (simp_all add: run_defs example_host_def linux_chromedriver_def)
  have dg: "fst (download_file ?H (gdriver_url linux_geckodriver) ''geckodriver.tar.gz''
                   empty_dir) = Inr ()"
    and ug: "fst (untar ?H ?a (pwd ?H)
                (snd (download_file ?H (gdriver_url linux_geckodriver) ''geckodriver.tar.gz''
                        empty_dir))) = Inr ()"
    and a: "?a = join (pwd ?H) (gecko_archive_name ?H)"
    by (simp_all add: run_defs example_host_def linux_geckodriver_def)
  have dc': "download_file ?H (cdriver_url linux_chromedriver) ''chromedriver.zip'' empty_dir
               = (Inr (), ?c1)"
    using dc by (simp add: prod_eq_iff)
  have uc': "unzip ?H (cdriver_zip_path linux_chromedriver) (pwd ?H) ?c1 = (Inr (), ?c2)"
    using uc by (simp add: prod_eq_iff)
  have dg': "download_file ?H (gdriver_url linux_geckodriver) (gecko_archive_name ?H) empty_dir
               = (Inr (), ?g1)"
    using dg nw by (simp add: prod_eq_iff)
  have ug': "gecko_extract ?H ?a ?g1 = (Inr (), ?g2)"
    using ug nw by (simp add: prod_eq_iff)
  note t = archive_removed_after_extraction
             [where h = ?H and arg = "Some ''78''" and ?w0.0 = empty_dir
                and cd = linux_chromedriver and w = empty_dir and ?w1.0 = ?c1
                and v = "''0.26.0''" and w0' = empty_dir and gd = linux_geckodriver
                and a = ?a and w1' = ?g1]
  note tc = t [THEN conjunct1, THEN mp, OF conjI [OF linux_chromedriver_init dc'],
               THEN conjunct1, THEN spec, THEN mp, OF uc']
  note tg = t [THEN conjunct2, THEN mp, OF conjI [OF linux_geckodriver_init conjI [OF a dg']],
               THEN conjunct1, THEN spec, THEN mp, OF ug']
  note rc = tc [THEN conjunct2, THEN conjunct2, THEN conjunct2, THEN conjunct1,
                THEN spec, THEN mp, OF conjI [OF nw fc]]
  note rg = tg [THEN conjunct2, THEN conjunct2, THEN conjunct1]
  from rc have okc: "fst (download_chromedriver ?H linux_chromedriver empty_dir) = Inr ()"
    by (rule arg_cong [where f = fst, THEN trans]) simp
  from rg have okg: "fst (download_geckodriver ?H linux_geckodriver empty_dir) = Inr ()"
    by (rule arg_cong [where f = fst, THEN trans]) simp
  from linux_chromedriver_init dc uc nw okc linux_geckodriver_init dg ug okg
  show ?thesis by (intro conjI)
qed

section \<open>The permission change\<close>

text \<open>
  Claim C7. In a Chrome download that succeeds on a host other than Windows, the driver
  file as the extraction left it gets the mode it had with the owner-execute bit added:
  bit 6 is set and every other bit of the mode is as it was, and the file's content and
  every other file but the removed archive are untouched. On Windows the driver file is
  as the extraction left it and no permission call is made. The Firefox download never
  makes a permission call.
\<close>

theorem chromedriver_owner_execute:
  assumes init: "fst (ChromeDriver_init h arg w0) = Inr self"
    and ok: "download_chromedriver h self w = (Inr (), w')"
  shows "(\<exists>w2. unzip h (cdriver_zip_path self) (pwd h)
                 (snd (download_file h (cdriver_url self) ''chromedriver.zip'' w)) = (Inr (), w2)
          \<and> (system h \<noteq> ''Windows'' \<longrightarrow>
               (\<exists>f. files w2 (cdriver_path self) = Some f
                  \<and> files w' (cdriver_path self) = Some (f\<lparr>st_mode := st_mode f OR S_IXUSR\<rparr>)
                  \<and> (\<forall>n. bit (st_mode f OR S_IXUSR) n \<longleftrightarrow> bit (st_mode f) n \<or> n = 6)
                  \<and> calls w' = calls w2 @ [Chmod (cdriver_path self) (st_mode f OR S_IXUSR),
                                           Remove (cdriver_zip_path self)]))
          \<and> (system h = ''Windows'' \<longrightarrow>
                 files w' (cdriver_path self) = files w2 (cdriver_path self)
               \<and> calls w' = calls w2 @ [Remove (cdriver_zip_path self)])
          \<and> (\<forall>p. p \<noteq> cdriver_path self \<and> p \<noteq> cdriver_zip_path self \<longrightarrow>
                 files w' p = files w2 p))
       \<and> (\<exists>cs. calls (snd (download_geckodriver h g w3)) = calls w3 @ cs
              \<and> (\<forall>p m. Chmod p m \<notin> set cs))"
proof -
  let ?p = "cdriver_path self" and ?z = "cdriver_zip_path self"
  define w1 where "w1 = snd (download_file h (cdriver_url self) ''chromedriver.zip'' w)"
  define w2 where "w2 = snd (unzip h ?z (pwd h) w1)"
  note s = download_chromedriver_success [OF ok w1_def w2_def]
  have pz: "?p \<noteq> ?z"
    using ChromeDriver_init_paths [OF init] by (simp add: join_def)
  have nwin: "\<exists>f. files w2 ?p = Some f
                  \<and> files w' ?p = Some (f\<lparr>st_mode := st_mode f OR S_IXUSR\<rparr>)
                  \<and> (\<forall>n. bit (st_mode f OR S_IXUSR) n \<longleftrightarrow> bit (st_mode f) n \<or> n = 6)
                  \<and> calls w' = calls w2 @ [Chmod ?p (st_mode f OR S_IXUSR), Remove ?z]"
    if "system h \<noteq> ''Windows''"
  proof -
    from s(3) [OF that] obtain f where f: "files w2 ?p = Some f"
      and w': "w' = w2\<lparr>files := ((files w2)(?p \<mapsto> f\<lparr>st_mode := st_mode f OR S_IXUSR\<rparr>))
                                   (?z := None),
                       calls := calls w2 @ [Chmod ?p (st_mode f OR S_IXUSR), Remove ?z]\<rparr>"
      by blast
    have "files w' ?p = Some (f\<lparr>st_mode := st_mode f OR S_IXUSR\<rparr>)"
      using pz by (simp add: w')
    moreover have "calls w' = calls w2 @ [Chmod ?p (st_mode f OR S_IXUSR), Remove ?z]"
      by (simp add: w')
    moreover have "\<forall>n. bit (st_mode f OR S_IXUSR) n \<longleftrightarrow> bit (st_mode f) n \<or> n = 6"
      by (simp add: bit_or_S_IXUSR)
    ultimately show ?thesis using f by blast
  qed
  have win: "files w' ?p = files w2 ?p \<and> calls w' = calls w2 @ [Remove ?z]"
    if "system h = ''Windows''"
    using s(4) [OF that] pz by simp
  have frame: "files w' p = files w2 p" if "p \<noteq> ?p \<and> p \<noteq> ?z" for p
  proof (cases "system h = ''Windows''")
    case True
    from s(4) [OF True] that show ?thesis by simp
  next
    case False
    from s(3) [OF False] that show ?thesis by auto
  qed
  have chrome: "\<exists>w2. unzip h ?z (pwd h)
                 (snd (download_file h (cdriver_url self) ''chromedriver.zip'' w)) = (Inr (), w2)
          \<and> (system h \<noteq> ''Windows'' \<longrightarrow>
               (\<exists>f. files w2 ?p = Some f
                  \<and> files w' ?p = Some (f\<lparr>st_mode := st_mode f OR S_IXUSR\<rparr>)
                  \<and> (\<forall>n. bit (st_mode f OR S_IXUSR) n \<longleftrightarrow> bit (st_mode f) n \<or> n = 6)
                  \<and> calls w' = calls w2 @ [Chmod ?p (st_mode f OR S_IXUSR), Remove ?z]))
          \<and> (system h = ''Windows'' \<longrightarrow>
                 files w' ?p = files w2 ?p \<and> calls w' = calls w2 @ [Remove ?z])
          \<and> (\<forall>p. p \<noteq> ?p \<and> p \<noteq> ?z \<longrightarrow> files w' p = files w2 p)"
    using s(2) [unfolded w1_def] nwin win frame by blast
  obtain cs where cs: "calls (snd (download_geckodriver h g w3))
           = calls w3 @ Urlretrieve (gdriver_url g) (join (pwd h) (gecko_archive_name h)) # cs"
    and pre: "prefix cs
             (if system h = ''Windows''
              then [ZipFileOpen (gdriver_zip_path g),
                    ZipExtractall (gdriver_zip_path g) (pwd h), Remove (gdriver_zip_path g)]
              else [TarfileOpen (gdriver_tar_gz_path g),
                    TarExtractall (gdriver_tar_gz_path g) (pwd h),
                    Remove (gdriver_tar_gz_path g)])"
    using download_geckodriver_calls [of h g w3] by blast
  from set_mono_prefix [OF pre] have "\<forall>p m. Chmod p m \<notin> set cs"
    by (auto split: if_splits)
  then have "\<forall>p m. Chmod p m \<notin>
      set (Urlretrieve (gdriver_url g) (join (pwd h) (gecko_archive_name h)) # cs)"
    by simp
  with cs have gecko: "\<exists>cs. calls (snd (download_geckodriver h g w3)) = calls w3 @ cs
              \<and> (\<forall>p m. Chmod p m \<notin> set cs)"
    by blast
  from chrome gecko show ?thesis by (rule conjI)
qed

theorem chromedriver_owner_execute_witness:
  "fst (ChromeDriver_init (example_host ''Linux'' ''x86_64'') (Some ''78'') empty_dir)
     = Inr linux_chromedriver
   \<and> fst (download_chromedriver (example_host ''Linux'' ''x86_64'') linux_chromedriver empty_dir)
     = Inr ()
   \<and> system (example_host ''Linux'' ''x86_64'') \<noteq> ''Windows''
   \<and> (\<exists>f. files (snd (download_chromedriver (example_host ''Linux'' ''x86_64'')
                        linux_chromedriver empty_dir)) (cdriver_path linux_chromedriver) = Some f
          \<and> bit (st_mode f) 6)"
proof -
  let ?H = "example_host ''Linux'' ''x86_64''"
  let ?wc = "snd (download_chromedriver ?H linux_chromedriver empty_dir)"
  have okc: "download_chromedriver ?H linux_chromedriver empty_dir = (Inr (), ?wc)"
    using linux_chromedriver_run(1) by (simp add: prod_eq_iff)
  have nw: "system ?H \<noteq> ''Windows''"
    by (simp add: example_host_def)
  note t = chromedriver_owner_execute [OF linux_chromedriver_init okc, THEN conjunct1]
  from t obtain w2 where
    x: "unzip ?H (cdriver_zip_path linux_chromedriver) (pwd ?H)
          (snd (download_file ?H (cdriver_url linux_chromedriver) ''chromedriver.zip'' empty_dir))
          = (Inr (), w2)
      \<and> (system ?H \<noteq> ''Windows'' \<longrightarrow>
           (\<exists>f. files w2 (cdriver_path linux_chromedriver) = Some f
              \<and> files ?wc (cdriver_path linux_chromedriver)
                  = Some (f\<lparr>st_mode := st_mode f OR S_IXUSR\<rparr>)
              \<and> (\<forall>n. bit (st_mode f OR S_IXUSR) n \<longleftrightarrow> bit (st_mode f) n \<or> n = 6)
              \<and> calls ?wc = calls w2 @ [Chmod (cdriver_path linux_chromedriver)
                                            (st_mode f OR S_IXUSR),
                                          Remove (cdriver_zip_path linux_chromedriver)]))
      \<and> (system ?H = ''Windows'' \<longrightarrow>
             files ?wc (cdriver_path linux_chromedriver)
               = files w2 (cdriver_path linux_chromedriver)
           \<and> calls ?wc = calls w2 @ [Remove (cdriver_zip_path linux_chromedriver)])
      \<and> (\<forall>p. p \<noteq> cdriver_path linux_chromedriver \<and> p \<noteq> cdriver_zip_path linux_chromedriver
             \<longrightarrow> files ?wc p = files w2 p)" ..
  from x [THEN conjunct2, THEN conjunct1, THEN mp, OF nw] obtain f where
    y: "files w2 (cdriver_path linux_chromedriver) = Some f
      \<and> files ?wc (cdriver_path linux_chromedriver)
          = Some (f\<lparr>st_mode := st_mode f OR S_IXUSR\<rparr>)
      \<and> (\<forall>n. bit (st_mode f OR S_IXUSR) n \<longleftrightarrow> bit (st_mode f) n \<or> n = 6)
      \<and> calls ?wc = calls w2 @ [Chmod (cdriver_path linux_chromedriver)
                                    (st_mode f OR S_IXUSR),
                                  Remove (cdriver_zip_path linux_chromedriver)]" ..
  note a = y [THEN conjunct2, THEN conjunct1]
  note b = y [THEN conjunct2, THEN conjunct2, THEN conjunct1]
  from b have "bit (st_mode (f\<lparr>st_mode := st_mode f OR S_IXUSR\<rparr>)) 6" by simp
  with a have "files ?wc (cdriver_path linux_chromedriver)
                  = Some (f\<lparr>st_mode := st_mode f OR S_IXUSR\<rparr>)
                \<and> bit (st_mode (f\<lparr>st_mode := st_mode f OR S_IXUSR\<rparr>)) 6"
    by (intro conjI)
  then have "\<exists>f. files ?wc (cdriver_path linux_chromedriver) = Some f \<and> bit (st_mode f) 6"
    by (rule exI)
  with linux_chromedriver_init linux_chromedriver_run(1) nw show ?thesis by (intro conjI)
qed

section \<open>Archive kind of the Firefox download\<close>

lemma not_suffix_by_last:
  assumes "last ys \<noteq> last xs" and "xs \<noteq> []"
  shows "\<not> suffix xs ys"
  using assms suffix_last by blast

lemma gdriver_url_windows:
  assumes "get_gdriver_download_url h v = Inr url" and "system h = ''Windows''"
  shows "(suffix ''win64.zip'' url \<or> suffix ''win32.zip'' url)
       \<and> suffix ''.zip'' url \<and> \<not> suffix ''.tar.gz'' url"
proof -
  from assms consider "url = gecko_release v ''win64.zip''" | "url = gecko_release v ''win32.zip''"
    by (auto simp: get_gdriver_download_url_def format_gdriver simp del: contains.simps
             split: if_splits)
  then show ?thesis
  proof cases
    case 1
    have a: "suffix ''win64.zip'' url" unfolding 1 suffix_def
      by (rule exI [of _ "''https://github.com/mozilla/geckodriver/releases/download/v'' @ v
                           @ ''/geckodriver-v'' @ v @ ''-''"]) simp
    have b: "suffix ''.zip'' url" unfolding 1 suffix_def
      by (rule exI [of _ "''https://github.com/mozilla/geckodriver/releases/download/v'' @ v
                           @ ''/geckodriver-v'' @ v @ ''-win64''"]) simp
    have c: "\<not> suffix ''.tar.gz'' url"
      by (rule not_suffix_by_last) (simp_all add: 1)
    from a b c show ?thesis by simp
  next
    case 2
    have a: "suffix ''win32.zip'' url" unfolding 2 suffix_def
      by (rule exI [of _ "''https://github.com/mozilla/geckodriver/releases/download/v'' @ v
                           @ ''/geckodriver-v'' @ v @ ''-''"]) simp
    have b: "suffix ''.zip'' url" unfolding 2 suffix_def
      by (rule exI [of _ "''https://github.com/mozilla/geckodriver/releases/download/v'' @ v
                           @ ''/geckodriver-v'' @ v @ ''-win32''"]) simp
    have c: "\<not> suffix ''.tar.gz'' url"
      by (rule not_suffix_by_last) (simp_all add: 2)
    from a b c show ?thesis by simp
  qed
qed

lemma gdriver_url_other:
  assumes "get_gdriver_download_url h v = Inr url" and "system h \<noteq> ''Windows''"
  shows "(suffix ''macos.tar.gz'' url \<or> suffix ''linux64.tar.gz'' url
            \<or> suffix ''linux32.tar.gz'' url)
       \<and> suffix ''.tar.gz'' url \<and> \<not> suffix ''.zip'' url"
proof -
  from assms consider "url = gecko_release v ''macos.tar.gz''"
    | "url = gecko_release v ''linux64.tar.gz''" | "url = gecko_release v ''linux32.tar.gz''"
    by (auto simp: get_gdriver_download_url_def format_gdriver simp del: contains.simps
             split: if_splits)
  then show ?thesis
  proof cases
    case 1
    have a: "suffix ''macos.tar.gz'' url" unfolding 1 suffix_def
      by (rule exI [of _ "''https://github.com/mozilla/geckodriver/releases/download/v'' @ v
                           @ ''/geckodriver-v'' @ v @ ''-''"]) simp
    have b: "suffix ''.tar.gz'' url" unfolding 1 suffix_def
      by (rule exI [of _ "''https://github.com/mozilla/geckodriver/releases/download/v'' @ v
                           @ ''/geckodriver-v'' @ v @ ''-macos''"]) simp
    have c: "\<not> suffix ''.zip'' url"
      by (rule not_suffix_by_last) (simp_all add: 1)
    from a b c show ?thesis by simp
  next
    case 2
    have a: "suffix ''linux64.tar.gz'' url" unfolding 2 suffix_def
      by (rule exI [of _ "''https://github.com/mozilla/geckodriver/releases/download/v'' @ v
                           @ ''/geckodriver-v'' @ v @ ''-''"]) simp
    have b: "suffix ''.tar.gz'' url" unfolding 2 suffix_def
      by (rule exI [of _ "''https://github.com/mozilla/geckodriver/releases/download/v'' @ v
                           @ ''/geckodriver-v'' @ v @ ''-linux64''"]) simp
    have c: "\<not> suffix ''.zip'' url"
      by (rule not_suffix_by_last) (simp_all add: 2)
    from a b c show ?thesis by simp
  next
    case 3
    have a: "suffix ''linux32.tar.gz'' url" unfolding 3 suffix_def
      by (rule exI [of _ "''https://github.com/mozilla/geckodriver/releases/download/v'' @ v
                           @ ''/geckodriver-v'' @ v @ ''-''"]) simp
    have b: "suffix ''.tar.gz'' url" unfolding 3 suffix_def
      by (rule exI [of _ "''https://github.com/mozilla/geckodriver/releases/download/v'' @ v
                           @ ''/geckodriver-v'' @ v @ ''-linux32''"]) simp
    have c: "\<not> suffix ''.zip'' url"
      by (rule not_suffix_by_last) (simp_all add: 3)
    from a b c show ?thesis by simp
  qed
qed

lemma unzip_on_file:
  assumes "files w file = Some f"
  shows "unzip h file path w =
     (case zip_open h (content f) of
        Some e \<Rightarrow> (Inl e, record_call (ZipFileOpen file) w)
      | None \<Rightarrow>
          ((case snd (zip_read h (content f)) of None \<Rightarrow> Inr () | Some e \<Rightarrow> Inl e),
           fold (\<lambda>(n, b). write_bytes h (join path n) b) (fst (zip_read h (content f)))
             (record_call (ZipExtractall file path) (record_call (ZipFileOpen file) w))))"
  using assms
  by (simp add: unzip_def Let_def record_call_def split: option.splits prod.splits)

lemma untar_on_file:
  assumes "files w file = Some f"
  shows "untar h file path w =
     (case tar_open h (content f) of
        Some e \<Rightarrow> (Inl e, record_call (TarfileOpen file) w)
      | None \<Rightarrow>
          ((case snd (tar_read h (content f)) of None \<Rightarrow> Inr () | Some e \<Rightarrow> Inl e),
           fold (\<lambda>(n, m). put_file (join path n) m) (fst (tar_read h (content f)))
             (record_call (TarExtractall file path) (record_call (TarfileOpen file) w))))"
  using assms
  by (simp add: untar_def Let_def record_call_def split: option.splits prod.splits)

lemma gecko_flow_refused:
  assumes e: "http_get h (gdriver_url self) = Inl e"
  shows "fst (download_geckodriver h self w) = Inl e
       \<and> calls (snd (download_geckodriver h self w))
           = calls w @ [Urlretrieve (gdriver_url self) (join (pwd h) (gecko_archive_name h))]"
proof -
  have "fst (download_file h (gdriver_url self) f w) = Inl e" for f
    using e by (simp add: download_file_def Let_def)
  then show ?thesis
    by (simp add: download_geckodriver_def fst_and_then snd_and_then download_file_calls)
qed

lemma gecko_flow_zip:
  assumes init: "fst (GeckoDriver_init h v w0) = Inr self"
    and win: "system h = ''Windows''"
    and b: "http_get h (gdriver_url self) = Inr b"
    and a: "a = join (pwd h) ''geckodriver.zip''"
    and w1: "w1 = write_bytes h a b (record_call (Urlretrieve (gdriver_url self) a) w)"
  shows "download_geckodriver h self w = and_then (unzip h a (pwd h) w1) (\<lambda>_. cleanup a)"
    and "fst (download_geckodriver h self w) =
           (case zip_open h b of
              Some e \<Rightarrow> Inl e
            | None \<Rightarrow> (case snd (zip_read h b) of Some e \<Rightarrow> Inl e | None \<Rightarrow> Inr ()))"
    and "calls (snd (download_geckodriver h self w)) =
           calls w @ Urlretrieve (gdriver_url self) a # ZipFileOpen a #
             (case zip_open h b of
                Some e \<Rightarrow> []
              | None \<Rightarrow> ZipExtractall a (pwd h) #
                  (case snd (zip_read h b) of Some e \<Rightarrow> [] | None \<Rightarrow> [Remove a]))"
    and "zip_open h b = None \<Longrightarrow> n \<in> fst ` set (fst (zip_read h b)) \<Longrightarrow>
           n \<noteq> ''geckodriver.zip'' \<Longrightarrow>
           files (snd (download_geckodriver h self w)) (join (pwd h) n) \<noteq> None"
proof -
  let ?url = "gdriver_url self"
  let ?w2 = "fold (\<lambda>(n, b). write_bytes h (join (pwd h) n) b) (fst (zip_read h b))
               (record_call (ZipExtractall a (pwd h)) (record_call (ZipFileOpen a) w1))"
  have z: "gdriver_zip_path self = a"
    using GeckoDriver_init_fields [OF init] a by simp
  have d: "download_file h ?url ''geckodriver.zip'' w = (Inr (), w1)"
    using b by (simp add: download_file_def Let_def w1 a)
  obtain m where f1: "files w1 a = Some \<lparr>content = b, st_mode = m\<rparr>"
    by (simp add: w1 write_bytes_def)
  show eq: "download_geckodriver h self w = and_then (unzip h a (pwd h) w1) (\<lambda>_. cleanup a)"
    using win by (simp add: download_geckodriver_def d z and_then_def)
  note U = unzip_on_file [OF f1, of h "pwd h", simplified]
  have c1: "calls w1 = calls w @ [Urlretrieve ?url a]"
    by (simp add: w1 write_bytes_def record_call_def)
  have c2: "calls ?w2 = calls w @ [Urlretrieve ?url a, ZipFileOpen a, ZipExtractall a (pwd h)]"
    by (simp add: calls_fold_write record_call_def c1)
  have arch: "files ?w2 a \<noteq> None"
    by (rule files_fold_write_keeps) (simp add: record_call_def f1)
  have mem: "files ?w2 (join (pwd h) n) \<noteq> None" if "n \<in> fst ` set (fst (zip_read h b))"
    using that by (rule files_fold_write_member)
  have na: "join (pwd h) n \<noteq> a" if "n \<noteq> ''geckodriver.zip''"
    using that by (simp add: a join_def)
  have all: "fst (download_geckodriver h self w) =
           (case zip_open h b of
              Some e \<Rightarrow> Inl e
            | None \<Rightarrow> (case snd (zip_read h b) of Some e \<Rightarrow> Inl e | None \<Rightarrow> Inr ()))
      \<and> calls (snd (download_geckodriver h self w)) =
           calls w @ Urlretrieve ?url a # ZipFileOpen a #
             (case zip_open h b of
                Some e \<Rightarrow> []
              | None \<Rightarrow> ZipExtractall a (pwd h) #
                  (case snd (zip_read h b) of Some e \<Rightarrow> [] | None \<Rightarrow> [Remove a]))
      \<and> (zip_open h b = None \<longrightarrow> n \<in> fst ` set (fst (zip_read h b)) \<longrightarrow>
           n \<noteq> ''geckodriver.zip'' \<longrightarrow>
           files (snd (download_geckodriver h self w)) (join (pwd h) n) \<noteq> None)"
  proof (cases "zip_open h b")
    case (Some e)
    with U have "unzip h a (pwd h) w1 = (Inl e, record_call (ZipFileOpen a) w1)" by simp
    then have "download_geckodriver h self w = (Inl e, record_call (ZipFileOpen a) w1)"
      unfolding eq by (simp add: and_then_def)
    with Some show ?thesis by (simp add: record_call_def c1)
  next
    case None
    show ?thesis
    proof (cases "snd (zip_read h b)")
      case (Some e)
      with U None have "unzip h a (pwd h) w1 = (Inl e, ?w2)" by simp
      then have r: "download_geckodriver h self w = (Inl e, ?w2)"
        unfolding eq by (simp add: and_then_def)
      show ?thesis unfolding r using None Some c2 mem by simp
    next
      case rd: None
      with U None have "unzip h a (pwd h) w1 = (Inr (), ?w2)" by simp
      then have r: "download_geckodriver h self w
                      = (Inr (), ?w2\<lparr>files := (files ?w2)(a := None),
                                     calls := calls ?w2 @ [Remove a]\<rparr>)"
        unfolding eq by (simp add: and_then_def cleanup_present [OF arch])
      show ?thesis unfolding r using None rd c2 mem na by simp
    qed
  qed
  from all show "fst (download_geckodriver h self w) =
           (case zip_open h b of
              Some e \<Rightarrow> Inl e
            | None \<Rightarrow> (case snd (zip_read h b) of Some e \<Rightarrow> Inl e | None \<Rightarrow> Inr ()))"
    by (rule conjunct1)
  from all show "calls (snd (download_geckodriver h self w)) =
           calls w @ Urlretrieve ?url a # ZipFileOpen a #
             (case zip_open h b of
                Some e \<Rightarrow> []
              | None \<Rightarrow> ZipExtractall a (pwd h) #
                  (case snd (zip_read h b) of Some e \<Rightarrow> [] | None \<Rightarrow> [Remove a]))"
    by (rule conjunct2 [THEN conjunct1])
  assume "zip_open h b = None" and "n \<in> fst ` set (fst (zip_read h b))"
    and "n \<noteq> ''geckodriver.zip''"
  with all show "files (snd (download_geckodriver h self w)) (join (pwd h) n) \<noteq> None"
    by (elim conjE impE) assumption+
qed

lemma gecko_flow_tar:
  assumes init: "fst (GeckoDriver_init h v w0) = Inr self"
    and nwin: "system h \<noteq> ''Windows''"
    and b: "http_get h (gdriver_url self) = Inr b"
    and a: "a = join (pwd h) ''geckodriver.tar.gz''"
    and w1: "w1 = write_bytes h a b (record_call (Urlretrieve (gdriver_url self) a) w)"
  shows "download_geckodriver h self w = and_then (untar h a (pwd h) w1) (\<lambda>_. cleanup a)"
    and "fst (download_geckodriver h self w) =
           (case tar_open h b of
              Some e \<Rightarrow> Inl e
            | None \<Rightarrow> (case snd (tar_read h b) of Some e \<Rightarrow> Inl e | None \<Rightarrow> Inr ()))"
    and "calls (snd (download_geckodriver h self w)) =
           calls w @ Urlretrieve (gdriver_url self) a # TarfileOpen a #
             (case tar_open h b of
                Some e \<Rightarrow> []
              | None \<Rightarrow> TarExtractall a (pwd h) #
                  (case snd (tar_read h b) of Some e \<Rightarrow> [] | None \<Rightarrow> [Remove a]))"
    and "tar_open h b = None \<Longrightarrow> n \<in> fst ` set (fst (tar_read h b)) \<Longrightarrow>
           n \<noteq> ''geckodriver.tar.gz'' \<Longrightarrow>
           files (snd (download_geckodriver h self w)) (join (pwd h) n) \<noteq> None"
proof -
  let ?url = "gdriver_url self"
  let ?w2 = "fold (\<lambda>(n, m). put_file (join (pwd h) n) m) (fst (tar_read h b))
               (record_call (TarExtractall a (pwd h)) (record_call (TarfileOpen a) w1))"
  have z: "gdriver_tar_gz_path self = a"
    using GeckoDriver_init_fields [OF init] a by simp
  have d: "download_file h ?url ''geckodriver.tar.gz'' w = (Inr (), w1)"
    using b by (simp add: download_file_def Let_def w1 a)
  obtain m where f1: "files w1 a = Some \<lparr>content = b, st_mode = m\<rparr>"
    by (simp add: w1 write_bytes_def)
  show eq: "download_geckodriver h self w = and_then (untar h a (pwd h) w1) (\<lambda>_. cleanup a)"
    using nwin by (simp add: download_geckodriver_def d z and_then_def)
  note U = untar_on_file [OF f1, of h "pwd h", simplified]
  have c1: "calls w1 = calls w @ [Urlretrieve ?url a]"
    by (simp add: w1 write_bytes_def record_call_def)
  have c2: "calls ?w2 = calls w @ [Urlretrieve ?url a, TarfileOpen a, TarExtractall a (pwd h)]"
    by (simp add: calls_fold_put record_call_def c1)
  have arch: "files ?w2 a \<noteq> None"
    by (rule files_fold_put_keeps) (simp add: record_call_def f1)
  have mem: "files ?w2 (join (pwd h) n) \<noteq> None" if "n \<in> fst ` set (fst (tar_read h b))"
    using that by (rule files_fold_put_member)
  have na: "join (pwd h) n \<noteq> a" if "n \<noteq> ''geckodriver.tar.gz''"
    using that by (simp add: a join_def)
  have all: "fst (download_geckodriver h self w) =
           (case tar_open h b of
              Some e \<Rightarrow> Inl e
            | None \<Rightarrow> (case snd (tar_read h b) of Some e \<Rightarrow> Inl e | None \<Rightarrow> Inr ()))
      \<and> calls (snd (download_geckodriver h self w)) =
           calls w @ Urlretrieve ?url a # TarfileOpen a #
             (case tar_open h b of
                Some e \<Rightarrow> []
              | None \<Rightarrow> TarExtractall a (pwd h) #
                  (case snd (tar_read h b) of Some e \<Rightarrow> [] | None \<Rightarrow> [Remove a]))
      \<and> (tar_open h b = None \<longrightarrow> n \<in> fst ` set (fst (tar_read h b)) \<longrightarrow>
           n \<noteq> ''geckodriver.tar.gz'' \<longrightarrow>
           files (snd (download_geckodriver h self w)) (join (pwd h) n) \<noteq> None)"
  proof (cases "tar_open h b")
    case (Some e)
    with U have "untar h a (pwd h) w1 = (Inl e, record_call (TarfileOpen a) w1)" by simp
    then have "download_geckodriver h self w = (Inl e, record_call (TarfileOpen a) w1)"
      unfolding eq by (simp add: and_then_def)
    with Some show ?thesis by (simp add: record_call_def c1)
  next
    case None
    show ?thesis
    proof (cases "snd (tar_read h b)")
      case (Some e)
      with U None have "untar h a (pwd h) w1 = (Inl e, ?w2)" by simp
      then have r: "download_geckodriver h self w = (Inl e, ?w2)"
        unfolding eq by (simp add: and_then_def)
      show ?thesis unfolding r using None Some c2 mem by simp
    next
      case rd: None
      with U None have "untar h a (pwd h) w1 = (Inr (), ?w2)" by simp
      then have r: "download_geckodriver h self w
                      = (Inr (), ?w2\<lparr>files := (files ?w2)(a := None),
                                     calls := calls ?w2 @ [Remove a]\<rparr>)"
        unfolding eq by (simp add: and_then_def cleanup_present [OF arch])
      show ?thesis unfolding r using None rd c2 mem na by simp
    qed
  qed
  from all show "fst (download_geckodriver h self w) =
           (case tar_open h b of
              Some e \<Rightarrow> Inl e
            | None \<Rightarrow> (case snd (tar_read h b) of Some e \<Rightarrow> Inl e | None \<Rightarrow> Inr ()))"
    by (rule conjunct1)
  from all show "calls (snd (download_geckodriver h self w)) =
           calls w @ Urlretrieve ?url a # TarfileOpen a #
             (case tar_open h b of
                Some e \<Rightarrow> []
              | None \<Rightarrow> TarExtractall a (pwd h) #
                  (case snd (tar_read h b) of Some e \<Rightarrow> [] | None \<Rightarrow> [Remove a]))"
    by (rule conjunct2 [THEN conjunct1])
  assume "tar_open h b = None" and "n \<in> fst ` set (fst (tar_read h b))"
    and "n \<noteq> ''geckodriver.tar.gz''"
  with all show "files (snd (download_geckodriver h self w)) (join (pwd h) n) \<noteq> None"
    by (elim conjE impE) assumption+
qed

text \<open>
  Claim C10. For the object the Firefox constructor returns on a host, the download step
  on that host agrees with the archive kind of the object's URL. When the system is
  Windows the URL ends in \<open>win64.zip\<close> or \<open>win32.zip\<close>, and the step fetches it into
  \<open>geckodriver.zip\<close> and, when the GET returns, is exactly \<open>unzip\<close> of that file followed
  by \<open>cleanup\<close>: it opens the file with \<open>zipfile\<close>, extracts with it when it opens,
  writing every member the zip reader finds, and removes the archive when the extraction
  returns. Otherwise the URL ends in \<open>macos.tar.gz\<close>, \<open>linux64.tar.gz\<close> or
  \<open>linux32.tar.gz\<close>, and the step does the same with \<open>geckodriver.tar.gz\<close>, \<open>untar\<close>
  and \<open>tarfile\<close>. When the GET raises, the retrieval is the only call.
\<close>

theorem geckodriver_archive_kind_agrees:
  assumes init: "fst (GeckoDriver_init h v w0) = Inr self"
  shows "(system h = ''Windows'' \<longrightarrow>
            (suffix ''win64.zip'' (gdriver_url self) \<or> suffix ''win32.zip'' (gdriver_url self))
          \<and> suffix ''.zip'' (gdriver_url self) \<and> \<not> suffix ''.tar.gz'' (gdriver_url self)
          \<and> (\<forall>e. http_get h (gdriver_url self) = Inl e \<longrightarrow>
                 fst (download_geckodriver h self w) = Inl e
               \<and> calls (snd (download_geckodriver h self w))
                   = calls w @ [Urlretrieve (gdriver_url self) (join (pwd h) ''geckodriver.zip'')])
          \<and> (\<forall>b. http_get h (gdriver_url self) = Inr b \<longrightarrow>
                 download_geckodriver h self w
                   = and_then
                       (unzip h (join (pwd h) ''geckodriver.zip'') (pwd h)
                          (write_bytes h (join (pwd h) ''geckodriver.zip'') b
                             (record_call (Urlretrieve (gdriver_url self)
                                             (join (pwd h) ''geckodriver.zip'')) w)))
                       (\<lambda>_. cleanup (join (pwd h) ''geckodriver.zip''))
               \<and> fst (download_geckodriver h self w) =
                   (case zip_open h b of
                      Some e \<Rightarrow> Inl e
                    | None \<Rightarrow> (case snd (zip_read h b) of Some e \<Rightarrow> Inl e | None \<Rightarrow> Inr ()))
               \<and> calls (snd (download_geckodriver h self w)) =
                   calls w @ Urlretrieve (gdriver_url self) (join (pwd h) ''geckodriver.zip'')
                     # ZipFileOpen (join (pwd h) ''geckodriver.zip'')
                     # (case zip_open h b of
                          Some e \<Rightarrow> []
                        | None \<Rightarrow> ZipExtractall (join (pwd h) ''geckodriver.zip'') (pwd h) #
                            (case snd (zip_read h b) of
                               Some e \<Rightarrow> []
                             | None \<Rightarrow> [Remove (join (pwd h) ''geckodriver.zip'')]))
               \<and> (\<forall>n. zip_open h b = None \<and> n \<in> fst ` set (fst (zip_read h b))
                        \<and> n \<noteq> ''geckodriver.zip'' \<longrightarrow>
                      files (snd (download_geckodriver h self w)) (join (pwd h) n) \<noteq> None)))
       \<and> (system h \<noteq> ''Windows'' \<longrightarrow>
            (suffix ''macos.tar.gz'' (gdriver_url self) \<or> suffix ''linux64.tar.gz'' (gdriver_url self)
               \<or> suffix ''linux32.tar.gz'' (gdriver_url self))
          \<and> suffix ''.tar.gz'' (gdriver_url self) \<and> \<not> suffix ''.zip'' (gdriver_url self)
          \<and> (\<forall>e. http_get h (gdriver_url self) = Inl e \<longrightarrow>
                 fst (download_geckodriver h self w) = Inl e
               \<and> calls (snd (download_geckodriver h self w))
                   = calls w @ [Urlretrieve (gdriver_url self)
                                  (join (pwd h) ''geckodriver.tar.gz'')])
          \<and> (\<forall>b. http_get h (gdriver_url self) = Inr b \<longrightarrow>
                 download_geckodriver h self w
                   = and_then
                       (untar h (join (pwd h) ''geckodriver.tar.gz'') (pwd h)
                          (write_bytes h (join (pwd h) ''geckodriver.tar.gz'') b
                             (record_call (Urlretrieve (gdriver_url self)
                                             (join (pwd h) ''geckodriver.tar.gz'')) w)))
                       (\<lambda>_. cleanup (join (pwd h) ''geckodriver.tar.gz''))
               \<and> fst (download_geckodriver h self w) =
                   (case tar_open h b of
                      Some e \<Rightarrow> Inl e
                    | None \<Rightarrow> (case snd (tar_read h b) of Some e \<Rightarrow> Inl e | None \<Rightarrow> Inr ()))
               \<and> calls (snd (download_geckodriver h self w)) =
                   calls w @ Urlretrieve (gdriver_url self) (join (pwd h) ''geckodriver.tar.gz'')
                     # TarfileOpen (join (pwd h) ''geckodriver.tar.gz'')
                     # (case tar_open h b of
                          Some e \<Rightarrow> []
                        | None \<Rightarrow> TarExtractall (join (pwd h) ''geckodriver.tar.gz'') (pwd h) #
                            (case snd (tar_read h b) of
                               Some e \<Rightarrow> []
                             | None \<Rightarrow> [Remove (join (pwd h) ''geckodriver.tar.gz'')]))
               \<and> (\<forall>n. tar_open h b = None \<and> n \<in> fst ` set (fst (tar_read h b))
                        \<and> n \<noteq> ''geckodriver.tar.gz'' \<longrightarrow>
                      files (snd (download_geckodriver h self w)) (join (pwd h) n) \<noteq> None)))"
proof (intro conjI impI allI)
  note f = GeckoDriver_init_fields [OF init]
  from f have u: "get_gdriver_download_url h v = Inr (gdriver_url self)" by simp
  {
    assume w: "system h = ''Windows''"
    note s = gdriver_url_windows [OF u w]
    show "suffix ''win64.zip'' (gdriver_url self) \<or> suffix ''win32.zip'' (gdriver_url self)"
      by (rule s [THEN conjunct1])
    show "suffix ''.zip'' (gdriver_url self)" by (rule s [THEN conjunct2, THEN conjunct1])
    show "\<not> suffix ''.tar.gz'' (gdriver_url self)" by (rule s [THEN conjunct2, THEN conjunct2])
    {
      fix e assume e: "http_get h (gdriver_url self) = Inl e"
      note r = gecko_flow_refused [OF e, where w = w]
      show "fst (download_geckodriver h self w) = Inl e" by (rule r [THEN conjunct1])
      show "calls (snd (download_geckodriver h self w))
              = calls w @ [Urlretrieve (gdriver_url self) (join (pwd h) ''geckodriver.zip'')]"
        using r [THEN conjunct2] w by simp
    }
    {
      fix b assume b: "http_get h (gdriver_url self) = Inr b"
      note r = gecko_flow_zip [OF init w b refl refl, where w = w]
      show "download_geckodriver h self w
              = and_then
                  (unzip h (join (pwd h) ''geckodriver.zip'') (pwd h)
                     (write_bytes h (join (pwd h) ''geckodriver.zip'') b
                        (record_call (Urlretrieve (gdriver_url self)
                                        (join (pwd h) ''geckodriver.zip'')) w)))
                  (\<lambda>_. cleanup (join (pwd h) ''geckodriver.zip''))"
        by (rule r(1))
      show "fst (download_geckodriver h self w) =
              (case zip_open h b of
                 Some e \<Rightarrow> Inl e
               | None \<Rightarrow> (case snd (zip_read h b) of Some e \<Rightarrow> Inl e | None \<Rightarrow> Inr ()))"
        by (rule r(2))
      show "calls (snd (download_geckodriver h self w)) =
              calls w @ Urlretrieve (gdriver_url self) (join (pwd h) ''geckodriver.zip'')
                # ZipFileOpen (join (pwd h) ''geckodriver.zip'')
                # (case zip_open h b of
                     Some e \<Rightarrow> []
                   | None \<Rightarrow> ZipExtractall (join (pwd h) ''geckodriver.zip'') (pwd h) #
                       (case snd (zip_read h b) of
                          Some e \<Rightarrow> []
                        | None \<Rightarrow> [Remove (join (pwd h) ''geckodriver.zip'')]))"
        by (rule r(3))
      fix n assume "zip_open h b = None \<and> n \<in> fst ` set (fst (zip_read h b))
                        \<and> n \<noteq> ''geckodriver.zip''"
      then have "zip_open h b = None" and "n \<in> fst ` set (fst (zip_read h b))"
        and "n \<noteq> ''geckodriver.zip''" by simp_all
      then show "files (snd (download_geckodriver h self w)) (join (pwd h) n) \<noteq> None"
        by (rule r(4))
    }
  }
  {
    assume w: "system h \<noteq> ''Windows''"
    note s = gdriver_url_other [OF u w]
    show "suffix ''macos.tar.gz'' (gdriver_url self) \<or> suffix ''linux64.tar.gz'' (gdriver_url self)
               \<or> suffix ''linux32.tar.gz'' (gdriver_url self)"
      by (rule s [THEN conjunct1])
    show "suffix ''.tar.gz'' (gdriver_url self)" by (rule s [THEN conjunct2, THEN conjunct1])
    show "\<not> suffix ''.zip'' (gdriver_url self)" by (rule s [THEN conjunct2, THEN conjunct2])
    {
      fix e assume e: "http_get h (gdriver_url self) = Inl e"
      note r = gecko_flow_refused [OF e, where w = w]
      show "fst (download_geckodriver h self w) = Inl e" by (rule r [THEN conjunct1])
      show "calls (snd (download_geckodriver h self w))
              = calls w @ [Urlretrieve (gdriver_url self) (join (pwd h) ''geckodriver.tar.gz'')]"
        using r [THEN conjunct2] w by simp
    }
    {
      fix b assume b: "http_get h (gdriver_url self) = Inr b"
      note r = gecko_flow_tar [OF init w b refl refl, where w = w]
      show "download_geckodriver h self w
              = and_then
                  (untar h (join (pwd h) ''geckodriver.tar.gz'') (pwd h)
                     (write_bytes h (join (pwd h) ''geckodriver.tar.gz'') b
                        (record_call (Urlretrieve (gdriver_url self)
                                        (join (pwd h) ''geckodriver.tar.gz'')) w)))
                  (\<lambda>_. cleanup (join (pwd h) ''geckodriver.tar.gz''))"
        by (rule r(1))
      show "fst (download_geckodriver h self w) =
              (case tar_open h b of
                 Some e \<Rightarrow> Inl e
               | None \<Rightarrow> (case snd (tar_read h b) of Some e \<Rightarrow> Inl e | None \<Rightarrow> Inr ()))"
        by (rule r(2))
      show "calls (snd (download_geckodriver h self w)) =
              calls w @ Urlretrieve (gdriver_url self) (join (pwd h) ''geckodriver.tar.gz'')
                # TarfileOpen (join (pwd h) ''geckodriver.tar.gz'')
                # (case tar_open h b of
                     Some e \<Rightarrow> []
                   | None \<Rightarrow> TarExtractall (join (pwd h) ''geckodriver.tar.gz'') (pwd h) #
                       (case snd (tar_read h b) of
                          Some e \<Rightarrow> []
                        | None \<Rightarrow> [Remove (join (pwd h) ''geckodriver.tar.gz'')]))"
        by (rule r(3))
      fix n assume "tar_open h b = None \<and> n \<in> fst ` set (fst (tar_read h b))
                        \<and> n \<noteq> ''geckodriver.tar.gz''"
      then have "tar_open h b = None" and "n \<in> fst ` set (fst (tar_read h b))"
        and "n \<noteq> ''geckodriver.tar.gz''" by simp_all
      then show "files (snd (download_geckodriver h self w)) (join (pwd h) n) \<noteq> None"
        by (rule r(4))
    }
  }
qed

lemma windows_geckodriver_init:
  "fst (GeckoDriver_init (example_host ''Windows'' ''AMD64'') ''0.26.0'' empty_dir)
     = Inr windows_geckodriver"
  by (simp add: GeckoDriver_init_def get_gdriver_download_url_def format_gdriver
        example_host_def windows_geckodriver_def)

theorem geckodriver_archive_kind_agrees_witness:
  "fst (GeckoDriver_init (example_host ''Windows'' ''AMD64'') ''0.26.0'' empty_dir)
     = Inr windows_geckodriver
   \<and> system (example_host ''Windows'' ''AMD64'') = ''Windows''
   \<and> http_get (example_host ''Windows'' ''AMD64'') (gdriver_url windows_geckodriver)
     = Inr ''zip:geckodriver.exe''
   \<and> suffix ''.zip'' (gdriver_url windows_geckodriver)
   \<and> \<not> suffix ''.tar.gz'' (gdriver_url windows_geckodriver)
   \<and> fst (download_geckodriver (example_host ''Windows'' ''AMD64'') windows_geckodriver
            empty_dir) = Inr ()
   \<and> calls (snd (download_geckodriver (example_host ''Windows'' ''AMD64'') windows_geckodriver
                   empty_dir))
     = [Urlretrieve (gdriver_url windows_geckodriver) ''/opt/drivers/geckodriver.zip'',
        ZipFileOpen ''/opt/drivers/geckodriver.zip'',
        ZipExtractall ''/opt/drivers/geckodriver.zip'' ''/opt/drivers'',
        Remove ''/opt/drivers/geckodriver.zip'']
   \<and> files (snd (download_geckodriver (example_host ''Windows'' ''AMD64'') windows_geckodriver
                   empty_dir)) ''/opt/drivers/geckodriver.exe'' \<noteq> None
   \<and> fst (GeckoDriver_init (example_host ''Linux'' ''x86_64'') ''0.26.0'' empty_dir)
     = Inr linux_geckodriver
   \<and> system (example_host ''Linux'' ''x86_64'') \<noteq> ''Windows''
   \<and> http_get (example_host ''Linux'' ''x86_64'') (gdriver_url linux_geckodriver)
     = Inr ''tar:geckodriver''
   \<and> suffix ''.tar.gz'' (gdriver_url linux_geckodriver)
   \<and> \<not> suffix ''.zip'' (gdriver_url linux_geckodriver)
   \<and> fst (download_geckodriver (example_host ''Linux'' ''x86_64'') linux_geckodriver
            empty_dir) = Inr ()
   \<and> calls (snd (download_geckodriver (example_host ''Linux'' ''x86_64'') linux_geckodriver
                   empty_dir))
     = [Urlretrieve (gdriver_url linux_geckodriver) ''/opt/drivers/geckodriver.tar.gz'',
        TarfileOpen ''/opt/drivers/geckodriver.tar.gz'',
        TarExtractall ''/opt/drivers/geckodriver.tar.gz'' ''/opt/drivers'',
        Remove ''/opt/drivers/geckodriver.tar.gz'']
   \<and> files (snd (download_geckodriver (example_host ''Linux'' ''x86_64'') linux_geckodriver
                   empty_dir)) ''/opt/drivers/geckodriver'' \<noteq> None"
proof -
  let ?W = "example_host ''Windows'' ''AMD64''" and ?L = "example_host ''Linux'' ''x86_64''"
  have sw: "system ?W = ''Windows''" and sl: "system ?L \<noteq> ''Windows''"
    by (simp_all add: example_host_def)
  have bw: "http_get ?W (gdriver_url windows_geckodriver) = Inr ''zip:geckodriver.exe''"
    and bl: "http_get ?L (gdriver_url linux_geckodriver) = Inr ''tar:geckodriver''"
    by (simp_all add: example_host_def windows_geckodriver_def linux_geckodriver_def
          suffix_to_prefix)
  have mw: "zip_open ?W ''zip:geckodriver.exe'' = None
            \<and> ''geckodriver.exe'' \<in> fst ` set (fst (zip_read ?W ''zip:geckodriver.exe''))
            \<and> ''geckodriver.exe'' \<noteq> ''geckodriver.zip''"
    and ml: "tar_open ?L ''tar:geckodriver'' = None
            \<and> ''geckodriver'' \<in> fst ` set (fst (tar_read ?L ''tar:geckodriver''))
            \<and> ''geckodriver'' \<noteq> ''geckodriver.tar.gz''"
    by (simp_all add: example_host_def)
  note tw = geckodriver_archive_kind_agrees [OF windows_geckodriver_init, where w = empty_dir,
              THEN conjunct1, THEN mp, OF sw]
  note tl = geckodriver_archive_kind_agrees [OF linux_geckodriver_init, where w = empty_dir,
              THEN conjunct2, THEN mp, OF sl]
  note w2 = tw [THEN conjunct2, THEN conjunct1]
  note w3 = tw [THEN conjunct2, THEN conjunct2, THEN conjunct1]
  note wb = tw [THEN conjunct2, THEN conjunct2, THEN conjunct2, THEN conjunct2,
                THEN spec, THEN mp, OF bw]
  note l2 = tl [THEN conjunct2, THEN conjunct1]
  note l3 = tl [THEN conjunct2, THEN conjunct2, THEN conjunct1]
  note lb = tl [THEN conjunct2, THEN conjunct2, THEN conjunct2, THEN conjunct2,
                THEN spec, THEN mp, OF bl]
  have wf: "fst (download_geckodriver ?W windows_geckodriver empty_dir) = Inr ()"
    unfolding wb [THEN conjunct2, THEN conjunct1] by (simp add: example_host_def)
  have wc: "calls (snd (download_geckodriver ?W windows_geckodriver empty_dir))
     = [Urlretrieve (gdriver_url windows_geckodriver) ''/opt/drivers/geckodriver.zip'',
        ZipFileOpen ''/opt/drivers/geckodriver.zip'',
        ZipExtractall ''/opt/drivers/geckodriver.zip'' ''/opt/drivers'',
        Remove ''/opt/drivers/geckodriver.zip'']"
    unfolding wb [THEN conjunct2, THEN conjunct2, THEN conjunct1]
    by (simp add: example_host_def join_def empty_dir_def)
  have "files (snd (download_geckodriver ?W windows_geckodriver empty_dir))
          (join (pwd ?W) ''geckodriver.exe'') \<noteq> None"
    by (rule wb [THEN conjunct2, THEN conjunct2, THEN conjunct2, THEN spec, THEN mp, OF mw])
  moreover have "join (pwd ?W) ''geckodriver.exe'' = ''/opt/drivers/geckodriver.exe''"
    by (simp add: join_def example_host_def)
  ultimately have wm: "files (snd (download_geckodriver ?W windows_geckodriver empty_dir))
          ''/opt/drivers/geckodriver.exe'' \<noteq> None"
    by (rule subst [where P = "\<lambda>p. files (snd (download_geckodriver ?W windows_geckodriver
                                                    empty_dir)) p \<noteq> None", rotated])
  have lf: "fst (download_geckodriver ?L linux_geckodriver empty_dir) = Inr ()"
    unfolding lb [THEN conjunct2, THEN conjunct1] by (simp add: example_host_def)
  have lc: "calls (snd (download_geckodriver ?L linux_geckodriver empty_dir))
     = [Urlretrieve (gdriver_url linux_geckodriver) ''/opt/drivers/geckodriver.tar.gz'',
        TarfileOpen ''/opt/drivers/geckodriver.tar.gz'',
        TarExtractall ''/opt/drivers/geckodriver.tar.gz'' ''/opt/drivers'',
        Remove ''/opt/drivers/geckodriver.tar.gz'']"
    unfolding lb [THEN conjunct2, THEN conjunct2, THEN conjunct1]
    by (simp add: example_host_def join_def empty_dir_def)
  have "files (snd (download_geckodriver ?L linux_geckodriver empty_dir))
          (join (pwd ?L) ''geckodriver'') \<noteq> None"
    by (rule lb [THEN conjunct2, THEN conjunct2, THEN conjunct2, THEN spec, THEN mp, OF ml])
  moreover have "join (pwd ?L) ''geckodriver'' = ''/opt/drivers/geckodriver''"
    by (simp add: join_def example_host_def)
  ultimately have lm: "files (snd (download_geckodriver ?L linux_geckodriver empty_dir))
          ''/opt/drivers/geckodriver'' \<noteq> None"
    by (rule subst [where P = "\<lambda>p. files (snd (download_geckodriver ?L linux_geckodriver
                                                    empty_dir)) p \<noteq> None", rotated])
  from windows_geckodriver_init sw bw w2 w3 wf wc wm
    linux_geckodriver_init sl bl l2 l3 lf lc lm
  show ?thesis by (intro conjI)
qed

end
